theory Spec2Isabelle
  imports Complex_Main "HOL-Library.Sublist"
begin

section \<open>The UV extinction notebook: slicing, alignment and the extinction curve\<close>

text \<open>
  The notebook \<^verbatim>\<open>exploring_UV_extinction_curves.ipynb\<close> holds the three pieces of
  array logic modelled here:
  \<^item> the cell that shortens the long-wavelength arrays of the unreddened star
    (\<^verbatim>\<open>wav_lw_nodust = wav_lw_nodust[:len(wav_lw_dusty)]\<close>),
  \<^item> the cell that excises detector edges with the slices \<^verbatim>\<open>[s_crop:]\<close> and
    \<^verbatim>\<open>[:l_crop]\<close>,
  \<^item> the helper \<^verbatim>\<open>Extinction(wav, flux1, flux2)\<close>.
\<close>

subsection \<open>Python slices\<close>

text \<open>
  A slice bound of Python is an integer; a negative bound counts from the tail, and every
  bound is clamped to the range of the sequence, so that slicing never raises.
\<close>

definition adjust_index :: "int \<Rightarrow> nat \<Rightarrow> nat" where
  "adjust_index i n = (if i < 0 then nat (max (int n + i) 0) else min (nat i) n)"

definition slice_from :: "'a list \<Rightarrow> int \<Rightarrow> 'a list" where
  \<comment> \<open>\<^verbatim>\<open>xs[i:]\<close>\<close>
  "slice_from xs i = drop (adjust_index i (length xs)) xs"

definition slice_upto :: "'a list \<Rightarrow> int \<Rightarrow> 'a list" where
  \<comment> \<open>\<^verbatim>\<open>xs[:j]\<close>\<close>
  "slice_upto xs j = take (adjust_index j (length xs)) xs"

subsection \<open>Spectra and the alignment cell\<close>

record 'a spectrum =
  wavs :: "'a list"
  fluxes :: "'a list"

text \<open>
  \<^verbatim>\<open>
  # Shorten the lw_nodust data so it matches the dusty data
  # This may not work for your targets! Always check your data
  wav_lw_nodust = wav_lw_nodust[:len(wav_lw_dusty)]
  flux_lw_nodust = flux_lw_nodust[:len(flux_lw_dusty)]
  \<close>
  The cell rebinds the two arrays of the unreddened star and leaves those of the reddened
  star alone. The model returns the pair (dusty, nodust) after the cell.
\<close>

definition align :: "'a spectrum \<Rightarrow> 'a spectrum \<Rightarrow> 'a spectrum \<times> 'a spectrum" where
  "align dusty nodust =
     (dusty,
      nodust\<lparr>wavs := slice_upto (wavs nodust) (int (length (wavs dusty))),
             fluxes := slice_upto (fluxes nodust) (int (length (fluxes dusty)))\<rparr>)"

subsection \<open>Array values\<close>

text \<open>
  The numbers of the notebook are modelled as IEEE 754 double-precision values, the
  \<^verbatim>\<open>float64\<close> of numpy and the \<^verbatim>\<open>float\<close> of Python. A value is a finite real, the
  negative zero, an infinity or a NaN; \<open>Fin 0\<close> is the positive zero. Every arithmetic
  result is rounded to the nearest double, ties to even, by \<open>round64\<close>: the unit in the
  last place of \<open>x\<close> is two to the power \<open>max \<lfloor>log 2 \<bar>x\<bar>\<rfloor> (-1022) - 52\<close>, which
  gives 53 significant bits down to the subnormal spacing of two to the power \<open>-1074\<close>; a
  result that rounds to two to the power \<open>1024\<close> or beyond overflows to an infinity, one
  that rounds to zero keeps its sign. A division by zero does not raise: it yields an
  infinity or a NaN.
\<close>

datatype npfloat = Fin real | NegZero | PInf | NInf | NaN

definition signbit :: "npfloat \<Rightarrow> bool" where
  "signbit x = (case x of Fin r \<Rightarrow> r < 0 | NegZero \<Rightarrow> True | PInf \<Rightarrow> False
                | NInf \<Rightarrow> True | NaN \<Rightarrow> False)"

definition is_zero :: "npfloat \<Rightarrow> bool" where
  "is_zero x = (x = Fin 0 \<or> x = NegZero)"

definition is_inf :: "npfloat \<Rightarrow> bool" where
  "is_inf x = (x = PInf \<or> x = NInf)"

definition isfinite :: "npfloat \<Rightarrow> bool" where
  "isfinite x = (x \<noteq> PInf \<and> x \<noteq> NInf \<and> x \<noteq> NaN)"

definition signed_zero :: "bool \<Rightarrow> npfloat" where
  "signed_zero neg = (if neg then NegZero else Fin 0)"

definition signed_inf :: "bool \<Rightarrow> npfloat" where
  "signed_inf neg = (if neg then NInf else PInf)"

definition real_of :: "npfloat \<Rightarrow> real" where
  "real_of x = (case x of Fin r \<Rightarrow> r | _ \<Rightarrow> 0)"

definition rne :: "real \<Rightarrow> int" where
  \<comment> \<open>the nearest integer, the even one of two equally near\<close>
  "rne x = (let f = \<lfloor>x\<rfloor>; d = x - of_int f
            in if d < 1 / 2 then f else if 1 / 2 < d then f + 1
               else if even f then f else f + 1)"

definition ulp_exponent :: "real \<Rightarrow> int" where
  "ulp_exponent x = max \<lfloor>log 2 \<bar>x\<bar>\<rfloor> (- 1022) - 52"

definition round64 :: "real \<Rightarrow> npfloat" where
  "round64 x =
     (if x = 0 then Fin 0
      else let u = 2 powi ulp_exponent x; y = of_int (rne (x / u)) * u
           in if 2 ^ 1024 \<le> \<bar>y\<bar> then signed_inf (x < 0)
              else if y = 0 then signed_zero (x < 0)
              else Fin y)"

definition is_double :: "npfloat \<Rightarrow> bool" where
  \<comment> \<open>a finite value is a double when rounding leaves it as it is\<close>
  "is_double x = (case x of Fin r \<Rightarrow> round64 r = Fin r | _ \<Rightarrow> True)"

definition fdiv :: "npfloat \<Rightarrow> npfloat \<Rightarrow> npfloat" where
  \<comment> \<open>\<^verbatim>\<open>x / y\<close> on floats: the sign of the result is the exclusive or of the signs\<close>
  "fdiv x y =
     (if x = NaN \<or> y = NaN then NaN
      else if is_inf x then (if is_inf y then NaN else signed_inf (signbit x \<noteq> signbit y))
      else if is_inf y then signed_zero (signbit x \<noteq> signbit y)
      else if is_zero y then (if is_zero x then NaN else signed_inf (signbit x \<noteq> signbit y))
      else if is_zero x then signed_zero (signbit x \<noteq> signbit y)
      else round64 (real_of x / real_of y))"

definition flog :: "npfloat \<Rightarrow> npfloat" where
  \<comment> \<open>\<^verbatim>\<open>np.log\<close>: minus infinity at either zero, NaN below zero, and the logarithm
      rounded to a double at a positive finite argument (the logarithm of the C
      library is taken as correctly rounded)\<close>
  "flog x =
     (case x of
        NaN \<Rightarrow> NaN
      | PInf \<Rightarrow> PInf
      | NInf \<Rightarrow> NaN
      | NegZero \<Rightarrow> NInf
      | Fin r \<Rightarrow> (if r = 0 then NInf else if r < 0 then NaN else round64 (ln r)))"

subsection \<open>Array arithmetic\<close>

datatype error = ValueError

text \<open>
  An operation on two one-dimensional arrays works element by element when the lengths
  agree, stretches an array of length one, and raises \<^verbatim>\<open>ValueError\<close> (operands could
  not be broadcast together) otherwise. A scalar operand is applied to every element.
\<close>

definition broadcast2 ::
  "(npfloat \<Rightarrow> npfloat \<Rightarrow> npfloat) \<Rightarrow> npfloat list \<Rightarrow> npfloat list \<Rightarrow> error + npfloat list"
where
  "broadcast2 f xs ys =
     (if length xs = length ys then Inr (map2 f xs ys)
      else if length xs = 1 then Inr (map (f (hd xs)) ys)
      else if length ys = 1 then Inr (map (\<lambda>x. f x (hd ys)) xs)
      else Inl ValueError)"

subsection \<open>The notebook session and \<open>Extinction\<close>\<close>

text \<open>
  \<^verbatim>\<open>
  def Extinction(wav, flux1, flux2):
      V_rat = V_dusty/V_nodust
      flux_rat = flux1/flux2
      # Calcuating extinction from the formula
      ext = np.log(V_rat/flux_rat)/EBV
      inv_wav = 10**4/wav
      plt.plot(inv_wav, ext, 'o', markersize=2)
      return inv_wav, ext
  \<close>
  The helper reads three module-level variables and draws on the current figure. The
  session record holds what it reads and what it changes; the figure is the list of the
  series plotted so far. \<^verbatim>\<open>plt.plot\<close> raises \<^verbatim>\<open>ValueError\<close> when its two arrays
  differ in length.
\<close>

record session =
  V_dusty :: npfloat
  V_nodust :: npfloat
  EBV :: npfloat
  figure :: "(npfloat list \<times> npfloat list) list"

definition plot :: "session \<Rightarrow> npfloat list \<Rightarrow> npfloat list \<Rightarrow> error + session" where
  "plot s xs ys =
     (if length xs = length ys then Inr (s\<lparr>figure := figure s @ [(xs, ys)]\<rparr>)
      else Inl ValueError)"

definition Extinction ::
  "session \<Rightarrow> npfloat list \<Rightarrow> npfloat list \<Rightarrow> npfloat list
     \<Rightarrow> error + ((npfloat list \<times> npfloat list) \<times> session)"
where
  "Extinction s wav flux1 flux2 =
     (let V_rat = fdiv (V_dusty s) (V_nodust s) in
      case broadcast2 fdiv flux1 flux2 of
        Inl e \<Rightarrow> Inl e
      | Inr flux_rat \<Rightarrow>
          (let ext = map (\<lambda>x. fdiv x (EBV s)) (map flog (map (fdiv V_rat) flux_rat));
               inv_wav = map (fdiv (Fin (10 ^ 4))) wav
           in case plot s inv_wav ext of
                Inl e \<Rightarrow> Inl e
              | Inr s' \<Rightarrow> Inr ((inv_wav, ext), s')))"

subsection \<open>The edge-excision cell\<close>

text \<open>
  \<^verbatim>\<open>
  # How many points do we want to remove from either end of the data?
  s_crop = 50
  l_crop = -50

  # Use helper function with cropped data
  plt.figure()
  s_inv_wav, s_ext = Extinction(wav_sw_dusty[s_crop:], flux_sw_dusty[s_crop:], flux_sw_nodust[s_crop:])
  l_inv_wav, l_ext = Extinction(wav_lw_dusty[:l_crop], flux_lw_dusty[:l_crop], flux_lw_nodust[:l_crop])
  \<close>
  The cell cuts one end of each array: the short-wavelength arrays lose their first
  samples (\<open>slice_from\<close>), the long-wavelength arrays their last ones (\<open>slice_upto\<close>,
  with \<open>l_crop\<close> the negated count). No array is cut at both ends. \<^verbatim>\<open>plt.figure()\<close>
  opens a new, empty figure; an exception in the first call of \<open>Extinction\<close> ends the
  cell. The two bounds, fifty samples from either end in the notebook, and the six arrays
  are the parameters of the model.
\<close>

definition excise_edges ::
  "session \<Rightarrow> int \<Rightarrow> int
     \<Rightarrow> npfloat list \<Rightarrow> npfloat list \<Rightarrow> npfloat list
     \<Rightarrow> npfloat list \<Rightarrow> npfloat list \<Rightarrow> npfloat list
     \<Rightarrow> error + (((npfloat list \<times> npfloat list) \<times> (npfloat list \<times> npfloat list)) \<times> session)"
where
  "excise_edges s s_crop l_crop wav_sw_dusty flux_sw_dusty flux_sw_nodust
       wav_lw_dusty flux_lw_dusty flux_lw_nodust =
     (case Extinction (s\<lparr>figure := []\<rparr>) (slice_from wav_sw_dusty s_crop)
             (slice_from flux_sw_dusty s_crop) (slice_from flux_sw_nodust s_crop) of
        Inl e \<Rightarrow> Inl e
      | Inr (short, s1) \<Rightarrow>
          (case Extinction s1 (slice_upto wav_lw_dusty l_crop)
                  (slice_upto flux_lw_dusty l_crop) (slice_upto flux_lw_nodust l_crop) of
             Inl e \<Rightarrow> Inl e
           | Inr (long, s2) \<Rightarrow> Inr ((short, long), s2)))"

subsection \<open>Scaling of the flux arrays\<close>

text \<open>
  The scaling law of the extinction curve compares a call of \<open>Extinction\<close> with the call
  on the flux arrays multiplied by a constant, \<^verbatim>\<open>c * flux1\<close> and \<^verbatim>\<open>c * flux2\<close>. The
  multiplication is the caller's, \<open>Extinction\<close> has none; \<open>fmul\<close> is the product of two
  doubles, rounded as every other result. A product \<open>c * x\<close> is exact when the double it
  yields is the real product.
\<close>

definition fmul :: "npfloat \<Rightarrow> npfloat \<Rightarrow> npfloat" where
  \<comment> \<open>\<^verbatim>\<open>x * y\<close> on floats\<close>
  "fmul x y =
     (if x = NaN \<or> y = NaN then NaN
      else if is_inf x \<or> is_inf y then
        (if is_zero x \<or> is_zero y then NaN else signed_inf (signbit x \<noteq> signbit y))
      else if is_zero x \<or> is_zero y then signed_zero (signbit x \<noteq> signbit y)
      else round64 (real_of x * real_of y))"

definition exact_product :: "real \<Rightarrow> npfloat \<Rightarrow> bool" where
  "exact_product c x = (fmul (Fin c) x = (case x of Fin r \<Rightarrow> Fin (c * r) | _ \<Rightarrow> x))"

section \<open>Properties of the slices\<close>

subsection \<open>Slice bounds given as counts\<close>

lemma slice_from_nat: "slice_from xs (int s) = drop s xs"
  by (simp add: slice_from_def adjust_index_def min_def)

lemma slice_upto_nat: "slice_upto xs (int n) = take n xs"
  by (simp add: slice_upto_def adjust_index_def min_def)

lemma slice_upto_neg: "0 < e \<Longrightarrow> slice_upto xs (- int e) = take (length xs - e) xs"
  by (simp add: slice_upto_def adjust_index_def max_def nat_diff_distrib')

lemma slice_upto_zero: "slice_upto xs 0 = []"
  by (simp add: slice_upto_def adjust_index_def)

lemma sublist_slice_from: "sublist (slice_from xs i) xs"
  by (simp add: slice_from_def)

lemma sublist_slice_upto: "sublist (slice_upto xs j) xs"
  by (simp add: slice_upto_def)

lemma sorted_wrt_sublist:
  assumes "sublist xs ys" and "sorted_wrt R ys"
  shows "sorted_wrt R xs"
proof -
  from assms(1) obtain ps ss where "ys = ps @ xs @ ss"
    by (auto simp: sublist_def)
  with assms(2) show ?thesis
    by (simp add: sorted_wrt_append)
qed

lemma length_slice_from: "length (slice_from xs i) = length xs - adjust_index i (length xs)"
  by (simp add: slice_from_def)

lemma length_slice_upto: "length (slice_upto xs j) = adjust_index j (length xs)"
  by (simp add: slice_upto_def adjust_index_def)

lemma length_slice_from_cong:
  "length xs = length ys \<Longrightarrow> length (slice_from xs i) = length (slice_from ys i)"
  by (simp add: length_slice_from)

lemma length_slice_upto_cong:
  "length xs = length ys \<Longrightarrow> length (slice_upto xs j) = length (slice_upto ys j)"
  by (simp add: length_slice_upto)

lemma slice_from_empty_iff: "(slice_from seq (int n) = []) = (length seq \<le> n)"
  by (simp add: slice_from_nat)

lemma slice_upto_empty_iff:
  "0 < e \<Longrightarrow> (slice_upto seq (- int e) = []) = (length seq \<le> e)"
  by (auto simp add: slice_upto_neg)

section \<open>Rounding to a double\<close>

lemma rne_of_int: "rne (of_int n) = n"
  by (simp add: rne_def)

lemma rne_bounds: "\<lfloor>x\<rfloor> \<le> rne x \<and> rne x \<le> \<lfloor>x\<rfloor> + 1"
  by (simp add: rne_def Let_def)

lemma rne_abs_le:
  assumes "\<bar>x\<bar> \<le> of_int n"
  shows "\<bar>rne x\<bar> \<le> n"
proof -
  have "rne x \<le> \<lceil>x\<rceil>"
    by (simp add: rne_def Let_def ceiling_altdef)
  moreover have "\<lceil>x\<rceil> \<le> n"
    using assms by (simp add: ceiling_le_iff)
  moreover have "- n \<le> \<lfloor>x\<rfloor>"
    using assms by (simp add: le_floor_iff)
  ultimately show ?thesis
    using rne_bounds [of x] by linarith
qed

lemma floor_log2_bounds:
  assumes "x \<noteq> 0"
  shows "2 powi \<lfloor>log 2 \<bar>x\<bar>\<rfloor> \<le> \<bar>x\<bar>" and "\<bar>x\<bar> < 2 powi (\<lfloor>log 2 \<bar>x\<bar>\<rfloor> + 1)"
proof -
  have pos: "0 < \<bar>x\<bar>" using assms by simp
  from floor_log_eq_powr_iff [OF pos, of 2 "\<lfloor>log 2 \<bar>x\<bar>\<rfloor>"]
  have "2 powr (of_int \<lfloor>log 2 \<bar>x\<bar>\<rfloor>) \<le> \<bar>x\<bar> \<and> \<bar>x\<bar> < 2 powr (of_int (\<lfloor>log 2 \<bar>x\<bar>\<rfloor> + 1))"
    by simp
  then show "2 powi \<lfloor>log 2 \<bar>x\<bar>\<rfloor> \<le> \<bar>x\<bar>" and "\<bar>x\<bar> < 2 powi (\<lfloor>log 2 \<bar>x\<bar>\<rfloor> + 1)"
    by (simp_all only: powr_real_of_int' [of 2, simplified])
qed

lemma floor_log2_less:
  assumes "x \<noteq> 0" and "\<bar>x\<bar> < 2 powi k"
  shows "\<lfloor>log 2 \<bar>x\<bar>\<rfloor> < k"
proof (rule ccontr)
  assume "\<not> \<lfloor>log 2 \<bar>x\<bar>\<rfloor> < k"
  then have "k \<le> \<lfloor>log 2 \<bar>x\<bar>\<rfloor>" by simp
  then have "(2::real) powi k \<le> 2 powi \<lfloor>log 2 \<bar>x\<bar>\<rfloor>"
    by (intro power_int_increasing) simp_all
  with floor_log2_bounds(1) [OF assms(1)] assms(2) show False
    by linarith
qed

lemma floor_log2_ge:
  assumes "2 powi k \<le> \<bar>x\<bar>"
  shows "k \<le> \<lfloor>log 2 \<bar>x\<bar>\<rfloor>"
proof (rule ccontr)
  assume "\<not> k \<le> \<lfloor>log 2 \<bar>x\<bar>\<rfloor>"
  then have "\<lfloor>log 2 \<bar>x\<bar>\<rfloor> + 1 \<le> k" by simp
  then have "(2::real) powi (\<lfloor>log 2 \<bar>x\<bar>\<rfloor> + 1) \<le> 2 powi k"
    by (intro power_int_increasing) simp_all
  moreover have "x \<noteq> 0"
  proof
    assume "x = 0"
    with assms have "(2::real) powi k \<le> 0" by simp
    moreover have "(0::real) < 2 powi k" by simp
    ultimately show False by linarith
  qed
  ultimately show False
    using floor_log2_bounds(2) [of x] assms by linarith
qed

lemma ulp_exponent_ge: "- 1074 \<le> ulp_exponent x"
  by (simp add: ulp_exponent_def)

lemma round64_exact:
  assumes m: "m \<noteq> 0" "\<bar>m\<bar> < 2 ^ 53" and k: "- 1074 \<le> k"
    and r: "\<bar>of_int m * 2 powi k\<bar> < (2::real) ^ 1024"
  shows "round64 (of_int m * 2 powi k) = Fin (of_int m * 2 powi k)"
proof -
  define x :: real where "x = of_int m * 2 powi k"
  define e where "e = ulp_exponent x"
  have x0: "x \<noteq> 0"
    using m(1) by (simp add: x_def)
  have "\<bar>x\<bar> = of_int \<bar>m\<bar> * 2 powi k"
    by (simp add: x_def abs_mult)
  also have "\<dots> < 2 ^ 53 * 2 powi k"
  proof -
    have "(of_int \<bar>m\<bar> :: real) < of_int (2 ^ 53)"
      using m(2) by (simp only: of_int_less_iff)
    then show ?thesis
      by (simp add: mult_strict_right_mono)
  qed
  also have "\<dots> = 2 powi (53 + k)"
    by (simp add: power_int_add)
  finally have "\<lfloor>log 2 \<bar>x\<bar>\<rfloor> < 53 + k"
    by (rule floor_log2_less [OF x0])
  with k have ek: "e \<le> k"
    by (simp add: e_def ulp_exponent_def)
  define j where "j = nat (k - e)"
  have kj: "k = e + int j"
    using ek by (simp add: j_def)
  have pk: "(2::real) powi k = 2 ^ j * 2 powi e"
    by (subst kj) (simp add: power_int_add)
  have q: "x / 2 powi e = of_int (m * 2 ^ j)"
    by (simp add: x_def pk)
  have y: "of_int (rne (x / 2 powi e)) * 2 powi e = x"
    by (simp only: q rne_of_int) (simp add: x_def pk)
  have "round64 x = Fin x"
    using x0 r unfolding round64_def Let_def e_def [symmetric] y by (simp add: x_def)
  then show ?thesis
    by (simp only: x_def)
qed

lemma round64_unfold:
  assumes "x \<noteq> 0" and "y = of_int (rne (x / 2 powi ulp_exponent x)) * 2 powi ulp_exponent x"
  shows "round64 x = (if 2 ^ 1024 \<le> \<bar>y\<bar> then signed_inf (x < 0)
                      else if y = 0 then signed_zero (x < 0) else Fin y)"
  using assms by (simp only: round64_def Let_def if_False)

lemma round64_not_NaN: "round64 x \<noteq> NaN"
proof (cases "x = 0")
  case True
  then show ?thesis by (simp add: round64_def)
next
  case False
  define y :: real where "y = of_int (rne (x / 2 powi ulp_exponent x)) * 2 powi ulp_exponent x"
  show ?thesis
    unfolding round64_unfold [OF False y_def]
    by (simp only: signed_inf_def signed_zero_def split: if_splits) simp
qed

lemma scaled_abs_less:
  assumes "x \<noteq> 0"
  shows "\<bar>x / 2 powi ulp_exponent x\<bar> < 2 ^ 53"
proof -
  define e where "e = ulp_exponent x"
  have "\<lfloor>log 2 \<bar>x\<bar>\<rfloor> + 1 \<le> e + 53"
    by (simp add: e_def ulp_exponent_def)
  then have "(2::real) powi (\<lfloor>log 2 \<bar>x\<bar>\<rfloor> + 1) \<le> 2 powi (e + 53)"
    by (intro power_int_increasing) simp_all
  with floor_log2_bounds(2) [OF assms] have "\<bar>x\<bar> < 2 powi (e + 53)"
    by linarith
  also have "\<dots> = 2 ^ 53 * 2 powi e"
    by (simp add: power_int_add)
  finally have "\<bar>x\<bar> / 2 powi e < 2 ^ 53"
    by (simp add: pos_divide_less_eq)
  then show ?thesis
    by (simp add: e_def)
qed

lemma round64_Fin_D:
  assumes "round64 x = Fin r" and "r \<noteq> 0"
  shows "r = of_int (rne (x / 2 powi ulp_exponent x)) * 2 powi ulp_exponent x"
    and "\<bar>r\<bar> < 2 ^ 1024"
proof -
  define y :: real where "y = of_int (rne (x / 2 powi ulp_exponent x)) * 2 powi ulp_exponent x"
  have x0: "x \<noteq> 0"
    using assms by (auto simp add: round64_def)
  from assms(1) have c: "(if 2 ^ 1024 \<le> \<bar>y\<bar> then signed_inf (x < 0)
                      else if y = 0 then signed_zero (x < 0) else Fin y) = Fin r"
    by (simp only: round64_unfold [OF x0 y_def])
  have 1: "\<not> 2 ^ 1024 \<le> \<bar>y\<bar>"
  proof
    assume "2 ^ 1024 \<le> \<bar>y\<bar>"
    with c have "signed_inf (x < 0) = Fin r" by (simp only: if_True)
    then show False by (simp add: signed_inf_def split: if_splits)
  qed
  have 2: "y \<noteq> 0"
  proof
    assume "y = 0"
    with c 1 have "signed_zero (x < 0) = Fin r" by (simp only: if_True if_False refl)
    with assms(2) show False by (simp add: signed_zero_def split: if_splits)
  qed
  from c 1 2 have "Fin y = Fin r" by (simp only: if_False)
  then have "r = y" by simp
  with 1 show "r = of_int (rne (x / 2 powi ulp_exponent x)) * 2 powi ulp_exponent x"
    and "\<bar>r\<bar> < 2 ^ 1024"
    by (simp_all only: y_def not_le)
qed

lemma round64_idem:
  assumes "round64 x = Fin r"
  shows "round64 r = Fin r"
proof (cases "r = 0")
  case True
  then show ?thesis by (simp add: round64_def)
next
  case False
  define e where "e = ulp_exponent x"
  define m where "m = rne (x / 2 powi e)"
  have r: "r = of_int m * 2 powi e" and rb: "\<bar>r\<bar> < 2 ^ 1024"
    using round64_Fin_D [OF assms False] by (simp_all only: e_def m_def)
  have x0: "x \<noteq> 0"
    using assms False by (auto simp add: round64_def)
  have e: "- 1074 \<le> e"
    by (simp add: e_def ulp_exponent_ge)
  have m0: "m \<noteq> 0"
    using r False by auto
  have "\<bar>x / 2 powi e\<bar> \<le> of_int (2 ^ 53)"
    using scaled_abs_less [OF x0] by (simp add: e_def)
  then have mle: "\<bar>m\<bar> \<le> 2 ^ 53"
    unfolding m_def by (rule rne_abs_le)
  show ?thesis
  proof (cases "\<bar>m\<bar> < 2 ^ 53")
    case True
    have "\<bar>of_int m * 2 powi e\<bar> < (2::real) ^ 1024"
      using rb by (simp only: r)
    from round64_exact [OF m0 True e this] show ?thesis
      by (simp only: r)
  next
    case False
    with mle have mm: "\<bar>m\<bar> = 2 ^ 53" by simp
    have ms: "m = sgn m * 2 ^ 53"
      using mm by (metis mult_sgn_abs)
    have "(of_int m :: real) = of_int (sgn m) * 2 ^ 53"
      by (subst ms) simp
    then have r': "r = of_int (sgn m) * 2 powi (e + 53)"
      by (simp add: r power_int_add)
    have s0: "sgn m \<noteq> 0" and s1: "\<bar>sgn m\<bar> < 2 ^ 53"
      using m0 by (simp_all add: sgn_if)
    have e53: "- 1074 \<le> e + 53"
      using e by simp
    have "\<bar>of_int (sgn m) * 2 powi (e + 53)\<bar> < (2::real) ^ 1024"
      using rb by (simp only: r')
    from round64_exact [OF s0 s1 e53 this] show ?thesis
      by (simp only: r')
  qed
qed



lemma rne_mono_int:
  assumes "of_int n \<le> z"
  shows "n \<le> rne z"
proof -
  from assms have "n \<le> \<lfloor>z\<rfloor>"
    by (simp add: le_floor_iff)
  with rne_bounds [of z] show ?thesis
    by linarith
qed

lemma rne_antimono_int:
  assumes "z \<le> of_int n"
  shows "rne z \<le> n"
proof -
  have "rne z \<le> \<lceil>z\<rceil>"
    by (simp add: rne_def Let_def ceiling_altdef)
  moreover from assms have "\<lceil>z\<rceil> \<le> n"
    by (simp add: ceiling_le_iff)
  ultimately show ?thesis
    by linarith
qed

lemma round64_overflow:
  assumes "2 ^ 1024 \<le> \<bar>x\<bar>"
  shows "round64 x = signed_inf (x < 0)"
proof -
  define e where "e = ulp_exponent x"
  define z where "z = x / 2 powi e"
  define y :: real where "y = of_int (rne z) * 2 powi e"
  have pos: "(0::real) < 2 powi e"
    by (rule zero_less_power_int) simp
  have x0: "x \<noteq> 0"
    using assms by auto
  have "(2::real) powi 1024 \<le> \<bar>x\<bar>"
    using assms by simp
  then have "1024 \<le> \<lfloor>log 2 \<bar>x\<bar>\<rfloor>"
    by (rule floor_log2_ge)
  then have e: "\<lfloor>log 2 \<bar>x\<bar>\<rfloor> = e + 52" and e972: "1024 \<le> e + 52"
    by (simp_all add: e_def ulp_exponent_def)
  have "2 powi (e + 52) \<le> \<bar>x\<bar>"
    using floor_log2_bounds(1) [OF x0] by (simp only: e)
  then have "2 ^ 52 * 2 powi e \<le> \<bar>x\<bar>"
    by (simp add: power_int_add mult.commute)
  then have "2 ^ 52 \<le> \<bar>x\<bar> / 2 powi e"
    using pos by (simp only: pos_le_divide_eq)
  then have zb: "2 ^ 52 \<le> \<bar>z\<bar>"
    using pos by (simp only: z_def abs_divide abs_of_pos)
  have "(2 ^ 52 :: int) \<le> \<bar>rne z\<bar>"
  proof (cases "0 \<le> z")
    case True
    with zb have "of_int (2 ^ 52) \<le> z"
      by simp
    then have "2 ^ 52 \<le> rne z"
      by (rule rne_mono_int)
    then show ?thesis by simp
  next
    case False
    with zb have "z \<le> of_int (- (2 ^ 52))"
      by simp
    then have "rne z \<le> - (2 ^ 52)"
      by (rule rne_antimono_int)
    then show ?thesis by simp
  qed
  then have "(of_int (2 ^ 52) :: real) \<le> of_int \<bar>rne z\<bar>"
    by (simp only: of_int_le_iff)
  then have "(2 ^ 52 :: real) \<le> \<bar>of_int (rne z)\<bar>"
    by simp
  then have "2 ^ 52 * 2 powi e \<le> \<bar>of_int (rne z) :: real\<bar> * 2 powi e"
    using pos by (simp only: mult_le_cancel_right_pos)
  moreover have "(2::real) powi 1024 \<le> 2 powi (e + 52)"
    using e972 by (intro power_int_increasing) simp_all
  then have "(2::real) ^ 1024 \<le> 2 ^ 52 * 2 powi e"
    by (simp add: power_int_add mult.commute)
  moreover have "\<bar>y\<bar> = \<bar>of_int (rne z)\<bar> * 2 powi e"
    using pos by (simp only: y_def abs_mult abs_of_pos)
  ultimately have big: "2 ^ 1024 \<le> \<bar>y\<bar>"
    by linarith
  have "y = of_int (rne (x / 2 powi ulp_exponent x)) * 2 powi ulp_exponent x"
    by (simp only: y_def z_def e_def)
  from round64_unfold [OF x0 this] big show ?thesis
    by (simp only: if_True)
qed

lemma is_double_round64: "is_double (round64 x)"
proof (cases "round64 x")
  case (Fin r)
  then show ?thesis
    by (simp add: is_double_def round64_idem)
qed (simp_all add: is_double_def)

lemma round64_pow2:
  assumes "- 1074 \<le> k" and "k < 1024"
  shows "round64 (2 powi k) = Fin (2 powi k)"
proof -
  have "(2::real) powi k < 2 powi 1024"
    using assms(2) by (intro power_int_strict_increasing) simp_all
  then have "\<bar>of_int 1 * 2 powi k\<bar> < (2::real) ^ 1024"
    by simp
  from round64_exact [of 1 k, OF _ _ assms(1) this] show ?thesis
    by simp
qed

lemma round64_int:
  assumes "m \<noteq> 0" and "\<bar>m\<bar> < 2 ^ 53"
  shows "round64 (of_int m) = Fin (of_int m)"
proof -
  have "\<bar>of_int m :: real\<bar> < of_int (2 ^ 53)"
    using assms(2) by (simp only: of_int_abs [symmetric] of_int_less_iff)
  then have "\<bar>of_int m * 2 powi 0\<bar> < (2::real) ^ 1024"
    by simp
  from round64_exact [of m 0, OF assms _ this] show ?thesis
    by simp
qed

lemma round64_1: "round64 1 = Fin 1"
  using round64_int [of 1] by simp

lemma round64_2: "round64 2 = Fin 2"
  using round64_int [of 2] by simp

lemma round64_4: "round64 4 = Fin 4"
  using round64_int [of 4] by simp

lemma round64_5: "round64 5 = Fin 5"
  using round64_int [of 5] by simp

lemma round64_10: "round64 10 = Fin 10"
  using round64_int [of 10] by simp

lemma round64_10000: "round64 10000 = Fin 10000"
  using round64_int [of 10000] by simp

lemma round64_half: "round64 (1 / 2) = Fin (1 / 2)"
  using round64_pow2 [of "- 1"] by (simp add: power_int_minus field_simps)




lemma round64_pow2_1023: "round64 (2 ^ 1023) = Fin (2 ^ 1023)"
  using round64_pow2 [of 1023] by simp


lemma round64_pow2_1024: "round64 (2 ^ 1024) = PInf"
  using round64_overflow [of "2 ^ 1024"] by (simp add: signed_inf_def)

lemma round64_0: "round64 0 = Fin 0"
  by (simp add: round64_def)

lemma double_repr:
  assumes "round64 r = Fin r" and "r \<noteq> 0"
  shows "\<exists>m e. r = of_int m * 2 powi e \<and> m \<noteq> 0 \<and> \<bar>m\<bar> \<le> 2 ^ 53"
proof -
  define e where "e = ulp_exponent r"
  define m where "m = rne (r / 2 powi e)"
  have r: "r = of_int m * 2 powi e"
    using round64_Fin_D(1) [OF assms] by (simp only: e_def m_def)
  have m0: "m \<noteq> 0"
    using r assms(2) by auto
  have "\<bar>r / 2 powi e\<bar> \<le> of_int (2 ^ 53)"
    using scaled_abs_less [OF assms(2)] by (simp add: e_def)
  then have "\<bar>m\<bar> \<le> 2 ^ 53"
    unfolding m_def by (rule rne_abs_le)
  with r m0 show ?thesis
    by blast
qed

lemma round64_pow2_scale:
  assumes d: "round64 r = Fin r" and r0: "r \<noteq> 0"
    and lo: "2 powi (- 1022) \<le> 2 powi k * \<bar>r\<bar>" and hi: "2 powi k * \<bar>r\<bar> < 2 ^ 1024"
  shows "round64 (2 powi k * r) = Fin (2 powi k * r)"
proof -
  from double_repr [OF d r0] obtain m e where
    r: "r = of_int m * 2 powi e" and m0: "m \<noteq> 0" and mle: "\<bar>m\<bar> \<le> 2 ^ 53"
    by blast
  have x: "2 powi k * r = of_int m * 2 powi (e + k)"
    by (simp add: r power_int_add)
  have ax: "2 powi k * \<bar>r\<bar> = \<bar>of_int m * 2 powi (e + k)\<bar>"
    by (simp add: r power_int_add abs_mult)
  have "(of_int \<bar>m\<bar> :: real) \<le> of_int (2 ^ 53)"
    using mle by (simp only: of_int_le_iff)
  then have "\<bar>of_int m :: real\<bar> \<le> 2 ^ 53"
    by simp
  then have "\<bar>of_int m * 2 powi (e + k)\<bar> \<le> 2 ^ 53 * (2::real) powi (e + k)"
    by (simp add: abs_mult mult_right_mono)
  also have "\<dots> = 2 powi (e + k + 53)"
    by (simp add: power_int_add)
  finally have "(2::real) powi (- 1022) \<le> 2 powi (e + k + 53)"
    using lo ax by linarith
  have ek: "- 1022 \<le> e + k + 53"
  proof (rule ccontr)
    assume "\<not> - 1022 \<le> e + k + 53"
    then have "e + k + 53 < - 1022" by simp
    then have "(2::real) powi (e + k + 53) < 2 powi (- 1022)"
      by (intro power_int_strict_increasing) simp_all
    with \<open>(2::real) powi (- 1022) \<le> 2 powi (e + k + 53)\<close> show False
      by linarith
  qed
  have b: "\<bar>of_int m * 2 powi (e + k)\<bar> < (2::real) ^ 1024"
    using hi ax by linarith
  show ?thesis
  proof (cases "\<bar>m\<bar> < 2 ^ 53")
    case True
    then have "(of_int \<bar>m\<bar> :: real) < of_int (2 ^ 53)"
      by (simp only: of_int_less_iff)
    then have "\<bar>of_int m :: real\<bar> < 2 ^ 53"
      by simp
    then have "\<bar>of_int m * 2 powi (e + k)\<bar> < 2 ^ 53 * (2::real) powi (e + k)"
      by (simp add: abs_mult mult_strict_right_mono)
    also have "\<dots> = 2 powi (e + k + 53)"
      by (simp add: power_int_add)
    finally have lt: "(2::real) powi (- 1022) < 2 powi (e + k + 53)"
      using lo ax by linarith
    have "- 1074 \<le> e + k"
    proof (rule ccontr)
      assume "\<not> - 1074 \<le> e + k"
      then have "e + k + 53 \<le> - 1022" by simp
      then have "(2::real) powi (e + k + 53) \<le> 2 powi (- 1022)"
        by (intro power_int_increasing) simp_all
      with lt show False
        by linarith
    qed
    from round64_exact [OF m0 True this b] show ?thesis
      by (simp only: x)
  next
    case False
    with mle have mm: "\<bar>m\<bar> = 2 ^ 53" by simp
    have ms: "m = sgn m * 2 ^ 53"
      using mm by (metis mult_sgn_abs)
    have "(of_int m :: real) = of_int (sgn m) * 2 ^ 53"
      by (subst ms) simp
    then have x': "2 powi k * r = of_int (sgn m) * 2 powi (e + k + 53)"
      by (simp add: x power_int_add)
    have s0: "sgn m \<noteq> 0" and s1: "\<bar>sgn m\<bar> < 2 ^ 53"
      using m0 by (simp_all add: sgn_if)
    have e53: "- 1074 \<le> e + k + 53"
      using ek by simp
    have "\<bar>of_int (sgn m) * 2 powi (e + k + 53)\<bar> < (2::real) ^ 1024"
      using b by (simp only: x [symmetric] x')
    from round64_exact [OF s0 s1 e53 this] show ?thesis
      by (simp only: x')
  qed
qed

lemma pow2_not_negative: "\<not> (2::real) powi k < 0"
proof -
  have "(0::real) < 2 powi k"
    by (rule zero_less_power_int) simp
  then show ?thesis
    by linarith
qed

section \<open>Properties of the float operations and of \<open>Extinction\<close>\<close>

lemmas npfloat_defs =
  fdiv_def fmul_def flog_def signbit_def is_zero_def is_inf_def isfinite_def
  signed_zero_def signed_inf_def real_of_def

lemma fdiv_zero_divisor: "is_zero b \<Longrightarrow> \<not> isfinite (fdiv a b)"
  by (cases a; cases b) (auto simp add: npfloat_defs)

lemma fdiv_nonfinite_dividend: "\<not> isfinite a \<Longrightarrow> \<not> isfinite (fdiv a b)"
  by (cases a; cases b) (auto simp add: npfloat_defs)

lemma flog_nonfinite: "\<not> isfinite x \<Longrightarrow> \<not> isfinite (flog x)"
  by (cases x) (auto simp add: npfloat_defs)

lemma fdiv_nonfinite_divisor: "\<not> isfinite x \<Longrightarrow> is_zero (fdiv v x) \<or> fdiv v x = NaN"
  by (cases v; cases x) (auto simp add: npfloat_defs)

lemma flog_zero_or_nan: "is_zero q \<or> q = NaN \<Longrightarrow> \<not> isfinite (flog q)"
  by (cases q) (auto simp add: npfloat_defs)

lemma fdiv_Fin: "a \<noteq> 0 \<Longrightarrow> b \<noteq> 0 \<Longrightarrow> fdiv (Fin a) (Fin b) = round64 (a / b)"
  by (simp add: npfloat_defs)

lemma fmul_Fin: "a \<noteq> 0 \<Longrightarrow> b \<noteq> 0 \<Longrightarrow> fmul (Fin a) (Fin b) = round64 (a * b)"
  by (simp add: npfloat_defs)

lemma is_double_flog: "is_double (flog x)"
proof (cases x)
  case (Fin r)
  then show ?thesis
    using is_double_round64 [of "ln r"]
    by (simp add: flog_def) (simp add: is_double_def)
qed (simp_all add: flog_def is_double_def)




lemma broadcast2_same_length:
  "length xs = length ys \<Longrightarrow> broadcast2 f xs ys = Inr (map2 f xs ys)"
  by (simp add: broadcast2_def)

lemma Extinction_same_length:
  assumes "length flux1 = length flux2" and "length wav = length flux1"
  shows "Extinction s wav flux1 flux2 =
     Inr ((map (fdiv (Fin (10 ^ 4))) wav,
           map (\<lambda>x. fdiv x (EBV s))
             (map flog (map (fdiv (fdiv (V_dusty s) (V_nodust s))) (map2 fdiv flux1 flux2)))),
          s\<lparr>figure := figure s @
             [(map (fdiv (Fin (10 ^ 4))) wav,
               map (\<lambda>x. fdiv x (EBV s))
                 (map flog (map (fdiv (fdiv (V_dusty s) (V_nodust s)))
                    (map2 fdiv flux1 flux2))))]\<rparr>)"
  using assms by (simp add: Extinction_def broadcast2_same_length plot_def Let_def)

lemma Extinction_single:
  "Extinction s [w] [x] [y] =
     Inr (([fdiv (Fin (10 ^ 4)) w],
           [fdiv (flog (fdiv (fdiv (V_dusty s) (V_nodust s)) (fdiv x y))) (EBV s)]),
          s\<lparr>figure := figure s @
             [([fdiv (Fin (10 ^ 4)) w],
               [fdiv (flog (fdiv (fdiv (V_dusty s) (V_nodust s)) (fdiv x y))) (EBV s)])]\<rparr>)"
  by (simp add: Extinction_same_length)



lemma fdiv_by_zero:
  "is_zero z \<Longrightarrow>
     fdiv t z = (if t = NaN \<or> is_zero t then NaN else signed_inf (signbit t \<noteq> signbit z))"
  by (cases t; cases z) (auto simp add: npfloat_defs)

lemma fdiv_by_inf:
  "fdiv v (signed_inf b) = (if \<not> isfinite v then NaN else signed_zero (signbit v \<noteq> b))"
  by (cases v; cases b) (auto simp add: npfloat_defs)

lemma fdiv_inf_by:
  "fdiv (signed_inf b) x = (if \<not> isfinite x then NaN else signed_inf (b \<noteq> signbit x))"
  by (cases x; cases b) (auto simp add: npfloat_defs)

lemma flog_special:
  "flog (signed_zero b) = NInf" "flog (signed_inf b) = (if b then NaN else PInf)"
  "flog NaN = NaN"
  by (simp_all add: npfloat_defs)

lemma fdiv_NaN: "fdiv NaN x = NaN" "fdiv x NaN = NaN"
  by (simp_all add: fdiv_def)

lemma fdiv_NInf: "fdiv NInf x = (if \<not> isfinite x then NaN else signed_inf (\<not> signbit x))"
  using fdiv_inf_by [of True x] by (simp add: signed_inf_def)

lemma fdiv_PInf: "fdiv PInf x = (if \<not> isfinite x then NaN else signed_inf (signbit x))"
  using fdiv_inf_by [of False x] by (simp add: signed_inf_def)

lemma isfinite_simps:
  "\<not> isfinite NaN" "\<not> isfinite (signed_inf b)" "isfinite (signed_zero b)"
  by (simp_all add: isfinite_def signed_inf_def signed_zero_def)

lemma ext_zero_flux2:
  assumes "is_zero z"
  shows "fdiv (flog (fdiv v (fdiv t z))) e =
    (if t = NaN \<or> is_zero t \<or> \<not> isfinite v \<or> \<not> isfinite e then NaN
     else signed_inf (\<not> signbit e))"
proof (cases "t = NaN \<or> is_zero t")
  case True
  then have "fdiv t z = NaN"
    using assms by (simp add: fdiv_by_zero)
  with True show ?thesis
    by (auto simp add: fdiv_NaN flog_special)
next
  case False
  then have r: "fdiv t z = signed_inf (signbit t \<noteq> signbit z)"
    using assms by (simp add: fdiv_by_zero)
  show ?thesis
  proof (cases "isfinite v")
    case True
    then have "flog (fdiv v (fdiv t z)) = NInf"
      by (simp add: r fdiv_by_inf flog_special)
    with True False show ?thesis
      by (simp add: fdiv_NInf)
  next
    case notfin: False
    then have "fdiv v (fdiv t z) = NaN"
      by (simp add: r fdiv_by_inf)
    with notfin show ?thesis
      by (simp add: fdiv_NaN flog_special)
  qed
qed

lemma ext_zero_V_nodust:
  assumes "is_zero vn"
  shows "fdiv (flog (fdiv (fdiv vd vn) fr)) e =
    (if vd = NaN \<or> is_zero vd \<or> \<not> isfinite fr \<or> \<not> isfinite e
        \<or> (signbit vd \<noteq> signbit vn) \<noteq> signbit fr then NaN
     else signed_inf (signbit e))"
proof (cases "vd = NaN \<or> is_zero vd")
  case True
  then have "fdiv vd vn = NaN"
    using assms by (simp add: fdiv_by_zero)
  with True show ?thesis
    by (auto simp add: fdiv_NaN flog_special)
next
  case False
  then have r: "fdiv vd vn = signed_inf (signbit vd \<noteq> signbit vn)"
    using assms by (simp add: fdiv_by_zero)
  show ?thesis
  proof (cases "isfinite fr")
    case True
    show ?thesis
    proof (cases "(signbit vd \<noteq> signbit vn) \<noteq> signbit fr")
      case neg: True
      then have "flog (fdiv (fdiv vd vn) fr) = NaN"
        using True by (simp add: r fdiv_inf_by flog_special)
      with neg show ?thesis
        by (simp add: fdiv_NaN)
    next
      case pos: False
      then have "flog (fdiv (fdiv vd vn) fr) = PInf"
        using True by (simp add: r fdiv_inf_by flog_special)
      with pos True False show ?thesis
        by (simp add: fdiv_PInf)
    qed
  next
    case notfin: False
    then have "fdiv (fdiv vd vn) fr = NaN"
      by (simp add: r fdiv_inf_by)
    with notfin show ?thesis
      by (simp add: fdiv_NaN flog_special)
  qed
qed

lemma ext_nonfinite:
  assumes "is_zero f2 \<or> is_zero vn"
  shows "\<not> isfinite (fdiv (flog (fdiv (fdiv vd vn) (fdiv f1 f2))) e)"
  using assms
proof
  assume "is_zero f2"
  then show ?thesis
    by (simp add: ext_zero_flux2 isfinite_simps)
next
  assume "is_zero vn"
  then show ?thesis
    by (simp add: ext_zero_V_nodust isfinite_simps)
qed

lemma fmul_pos_special:
  assumes "0 < c"
  shows "fmul (Fin c) NegZero = NegZero" "fmul (Fin c) PInf = PInf"
    "fmul (Fin c) NInf = NInf" "fmul (Fin c) NaN = NaN" "fmul (Fin c) (Fin 0) = Fin 0"
  using assms by (simp_all add: npfloat_defs)

lemma fdiv_scale:
  assumes "0 < c" and "exact_product c a" and "exact_product c b"
  shows "fdiv (fmul (Fin c) a) (fmul (Fin c) b) = fdiv a b"
proof -
  have sc: "fmul (Fin c) x = (case x of Fin r \<Rightarrow> Fin (c * r) | _ \<Rightarrow> x)"
    if "exact_product c x" for x
    using that by (simp add: exact_product_def)
  show ?thesis
    unfolding sc [OF assms(2)] sc [OF assms(3)]
    using assms(1)
    by (cases a; cases b)
       (auto simp add: fdiv_def signbit_def is_zero_def is_inf_def real_of_def
          zero_less_mult_iff mult_less_0_iff)
qed

lemma Extinction_exact_products:
  assumes "0 < c" and "\<forall>x \<in> set flux1 \<union> set flux2. exact_product c x"
  shows "Extinction s wav (map (fmul (Fin c)) flux1) (map (fmul (Fin c)) flux2)
         = Extinction s wav flux1 flux2"
proof -
  have d: "fdiv (fmul (Fin c) a) (fmul (Fin c) b) = fdiv a b"
    if "a \<in> set flux1" "b \<in> set flux2" for a b
    using assms that by (intro fdiv_scale) auto
  have dz: "fdiv (fmul (Fin c) a) (fmul (Fin c) b) = fdiv a b"
    if "(a, b) \<in> set (zip flux1 flux2)" for a b
    using that by (intro d) (auto dest: set_zip_leftD set_zip_rightD)
  have m: "map2 fdiv (map (fmul (Fin c)) flux1) (map (fmul (Fin c)) flux2) = map2 fdiv flux1 flux2"
    by (auto simp add: zip_map_map dz)
  have hd1: "hd (map (fmul (Fin c)) flux1) = fmul (Fin c) (hd flux1) \<and> hd flux1 \<in> set flux1"
    if "length flux1 = Suc 0"
    using that by (cases flux1) simp_all
  have hd2: "hd (map (fmul (Fin c)) flux2) = fmul (Fin c) (hd flux2) \<and> hd flux2 \<in> set flux2"
    if "length flux2 = Suc 0"
    using that by (cases flux2) simp_all
  have "broadcast2 fdiv (map (fmul (Fin c)) flux1) (map (fmul (Fin c)) flux2)
        = broadcast2 fdiv flux1 flux2"
    by (auto simp add: broadcast2_def m hd1 hd2 d)
  then show ?thesis
    by (simp add: Extinction_def)
qed

lemma exact_product_pow2:
  assumes "is_double x"
    and "\<forall>r. x = Fin r \<longrightarrow> r = 0 \<or> 2 powi (- 1022) \<le> 2 powi k * \<bar>r\<bar> \<and> 2 powi k * \<bar>r\<bar> < 2 ^ 1024"
  shows "exact_product (2 powi k) x"
proof (cases x)
  case (Fin r)
  show ?thesis
  proof (cases "r = 0")
    case True
    have "(0::real) < 2 powi k"
      by (rule zero_less_power_int) simp
    then have "\<not> (2::real) powi k < 0"
      by linarith
    with True Fin show ?thesis
      by (simp add: exact_product_def npfloat_defs)
  next
    case False
    with assms Fin have "round64 (2 powi k * r) = Fin (2 powi k * r)"
      by (intro round64_pow2_scale) (auto simp add: is_double_def)
    with False Fin show ?thesis
      by (simp add: exact_product_def fmul_Fin)
  qed
qed (simp_all add: exact_product_def npfloat_defs pow2_not_negative)

lemma Extinction_returns:
  assumes "length wav = length flux1" and "length flux1 = length flux2"
  shows "\<exists>inv_wav ext. Extinction s wav flux1 flux2
           = Inr ((inv_wav, ext), s\<lparr>figure := figure s @ [(inv_wav, ext)]\<rparr>)
         \<and> length inv_wav = length wav \<and> length ext = length wav"
  using assms Extinction_same_length [of flux1 flux2 wav s] by simp

lemma excise_edges_returns:
  assumes sw: "length wav_sw_dusty = length flux_sw_dusty"
      "length flux_sw_dusty = length flux_sw_nodust"
    and lw: "length wav_lw_dusty = length flux_lw_dusty"
      "length flux_lw_dusty = length flux_lw_nodust"
  shows "\<exists>short long.
      excise_edges s s_crop l_crop wav_sw_dusty flux_sw_dusty flux_sw_nodust
          wav_lw_dusty flux_lw_dusty flux_lw_nodust
        = Inr ((short, long), s\<lparr>figure := [short, long]\<rparr>)
      \<and> length (fst short) = length (slice_from wav_sw_dusty s_crop)
      \<and> length (snd short) = length (slice_from wav_sw_dusty s_crop)
      \<and> length (fst long) = length (slice_upto wav_lw_dusty l_crop)
      \<and> length (snd long) = length (slice_upto wav_lw_dusty l_crop)"
proof -
  have 1: "length (slice_from wav_sw_dusty s_crop) = length (slice_from flux_sw_dusty s_crop)"
    "length (slice_from flux_sw_dusty s_crop) = length (slice_from flux_sw_nodust s_crop)"
    using sw by (simp_all add: length_slice_from)
  have 2: "length (slice_upto wav_lw_dusty l_crop) = length (slice_upto flux_lw_dusty l_crop)"
    "length (slice_upto flux_lw_dusty l_crop) = length (slice_upto flux_lw_nodust l_crop)"
    using lw by (simp_all add: length_slice_upto)
  from Extinction_returns [OF 1, of "s\<lparr>figure := []\<rparr>"]
  obtain si se where
    a: "Extinction (s\<lparr>figure := []\<rparr>) (slice_from wav_sw_dusty s_crop)
          (slice_from flux_sw_dusty s_crop) (slice_from flux_sw_nodust s_crop)
        = Inr ((si, se), s\<lparr>figure := [(si, se)]\<rparr>)"
    and al: "length si = length (slice_from wav_sw_dusty s_crop)"
      "length se = length (slice_from wav_sw_dusty s_crop)"
    by auto
  from Extinction_returns [OF 2, of "s\<lparr>figure := [(si, se)]\<rparr>"]
  obtain li le where
    b: "Extinction (s\<lparr>figure := [(si, se)]\<rparr>) (slice_upto wav_lw_dusty l_crop)
          (slice_upto flux_lw_dusty l_crop) (slice_upto flux_lw_nodust l_crop)
        = Inr ((li, le), s\<lparr>figure := [(si, se), (li, le)]\<rparr>)"
    and bl: "length li = length (slice_upto wav_lw_dusty l_crop)"
      "length le = length (slice_upto wav_lw_dusty l_crop)"
    by auto
  have "excise_edges s s_crop l_crop wav_sw_dusty flux_sw_dusty flux_sw_nodust
          wav_lw_dusty flux_lw_dusty flux_lw_nodust
        = Inr (((si, se), (li, le)), s\<lparr>figure := [(si, se), (li, le)]\<rparr>)"
    by (simp add: excise_edges_def a b)
  with al bl show ?thesis
    by (intro exI [of _ "(si, se)"] exI [of _ "(li, le)"]) simp
qed

section \<open>The cells on their inputs\<close>




text \<open>
  Claim C2, as the code has it. The cell truncates one side only: the arrays of the
  unreddened (reference) star are cut to their first \<open>min m n\<close> elements, \<open>m\<close> the
  length of the reddened (target) star's array and \<open>n\<close> that of the reference, and the
  target is returned as it is. Both outputs have length \<open>min m n\<close>, each the prefix of
  its input, whenever the target is not the longer one (\<open>m \<le> n\<close>).
\<close>

theorem align_truncates_reference:
  "fst (align dusty nodust) = dusty
   \<and> wavs (snd (align dusty nodust))
       = take (min (length (wavs dusty)) (length (wavs nodust))) (wavs nodust)
   \<and> fluxes (snd (align dusty nodust))
       = take (min (length (fluxes dusty)) (length (fluxes nodust))) (fluxes nodust)
   \<and> length (wavs (snd (align dusty nodust)))
       = min (length (wavs dusty)) (length (wavs nodust))
   \<and> length (fluxes (snd (align dusty nodust)))
       = min (length (fluxes dusty)) (length (fluxes nodust))
   \<and> (length (wavs dusty) \<le> length (wavs nodust) \<longrightarrow>
        length (wavs (fst (align dusty nodust)))
          = min (length (wavs dusty)) (length (wavs nodust))
        \<and> wavs (fst (align dusty nodust))
          = take (min (length (wavs dusty)) (length (wavs nodust))) (wavs dusty))
   \<and> (length (fluxes dusty) \<le> length (fluxes nodust) \<longrightarrow>
        length (fluxes (fst (align dusty nodust)))
          = min (length (fluxes dusty)) (length (fluxes nodust))
        \<and> fluxes (fst (align dusty nodust))
          = take (min (length (fluxes dusty)) (length (fluxes nodust))) (fluxes dusty))"
  by (simp add: align_def slice_upto_nat min_def)

theorem align_truncates_reference_witness:
  "align \<lparr>wavs = [1, 2, 3 :: int], fluxes = [7, 8, 9]\<rparr>
         \<lparr>wavs = [1, 2, 3, 4, 5], fluxes = [10, 20, 30, 40, 50]\<rparr>
     = (\<lparr>wavs = [1, 2, 3], fluxes = [7, 8, 9]\<rparr>, \<lparr>wavs = [1, 2, 3], fluxes = [10, 20, 30]\<rparr>)
   \<and> length (wavs (fst (align \<lparr>wavs = [1, 2, 3 :: int], fluxes = [7, 8, 9]\<rparr>
         \<lparr>wavs = [1, 2, 3, 4, 5], fluxes = [10, 20, 30, 40, 50]\<rparr>))) = min 3 5"
  using align_truncates_reference
    [of "\<lparr>wavs = [1, 2, 3 :: int], fluxes = [7, 8, 9]\<rparr>"
        "\<lparr>wavs = [1, 2, 3, 4, 5], fluxes = [10, 20, 30, 40, 50]\<rparr>"]
  by (simp add: align_def slice_upto_nat)

text \<open>
  With a target of five samples and a reference of three, the cell changes nothing: the
  outputs have five and three samples, not \<open>min 5 3\<close> each.
\<close>

theorem align_min_length_counterexample:
  "fst (align \<lparr>wavs = [1, 2, 3, 4, 5 :: int], fluxes = [10, 20, 30, 40, 50]\<rparr>
              \<lparr>wavs = [1, 2, 3], fluxes = [7, 8, 9]\<rparr>)
     = \<lparr>wavs = [1, 2, 3, 4, 5], fluxes = [10, 20, 30, 40, 50]\<rparr>
   \<and> snd (align \<lparr>wavs = [1, 2, 3, 4, 5 :: int], fluxes = [10, 20, 30, 40, 50]\<rparr>
                \<lparr>wavs = [1, 2, 3], fluxes = [7, 8, 9]\<rparr>)
     = \<lparr>wavs = [1, 2, 3], fluxes = [7, 8, 9]\<rparr>
   \<and> length (fluxes (fst (align \<lparr>wavs = [1, 2, 3, 4, 5 :: int], fluxes = [10, 20, 30, 40, 50]\<rparr>
                 \<lparr>wavs = [1, 2, 3], fluxes = [7, 8, 9]\<rparr>))) \<noteq> min 5 3"
  by (simp add: align_def slice_upto_def adjust_index_def)

text \<open>
  Claim C3, as the code has it. The edge-excision cell raises no range error, whatever
  the two offsets: on arrays of one length per detector it returns the two curves, each
  as long as the slice it was computed from. A slice is empty exactly when its offset
  reaches the length of its own array: \<open>seq[n:]\<close> when \<open>length seq \<le> n\<close>, and
  \<open>seq[:-e]\<close> (for \<open>e \<ge> 1\<close>) when \<open>length seq \<le> e\<close>. The sum of the two offsets plays
  no part.
\<close>

theorem excise_edges_never_fails:
  assumes "length wav_sw_dusty = length flux_sw_dusty"
    and "length flux_sw_dusty = length flux_sw_nodust"
    and "length wav_lw_dusty = length flux_lw_dusty"
    and "length flux_lw_dusty = length flux_lw_nodust"
  shows "(\<exists>short long s'.
            excise_edges s s_crop l_crop wav_sw_dusty flux_sw_dusty flux_sw_nodust
                wav_lw_dusty flux_lw_dusty flux_lw_nodust
              = Inr ((short, long), s')
            \<and> length (snd short) = length (slice_from flux_sw_dusty s_crop)
            \<and> length (snd long) = length (slice_upto flux_lw_dusty l_crop))
         \<and> (slice_from seq (int n) = []) = (length seq \<le> n)
         \<and> (0 < e \<longrightarrow> (slice_upto seq (- int e) = []) = (length seq \<le> e))"
proof -
  from excise_edges_returns [OF assms, of s s_crop l_crop]
  obtain short long where
    "excise_edges s s_crop l_crop wav_sw_dusty flux_sw_dusty flux_sw_nodust
         wav_lw_dusty flux_lw_dusty flux_lw_nodust
       = Inr ((short, long), s\<lparr>figure := [short, long]\<rparr>)"
    "length (snd short) = length (slice_from wav_sw_dusty s_crop)"
    "length (snd long) = length (slice_upto wav_lw_dusty l_crop)"
    by blast
  moreover have "length (slice_from wav_sw_dusty s_crop) = length (slice_from flux_sw_dusty s_crop)"
    "length (slice_upto wav_lw_dusty l_crop) = length (slice_upto flux_lw_dusty l_crop)"
    using assms(1,3) by (simp_all add: length_slice_from length_slice_upto)
  ultimately have "\<exists>short long s'.
            excise_edges s s_crop l_crop wav_sw_dusty flux_sw_dusty flux_sw_nodust
                wav_lw_dusty flux_lw_dusty flux_lw_nodust
              = Inr ((short, long), s')
            \<and> length (snd short) = length (slice_from flux_sw_dusty s_crop)
            \<and> length (snd long) = length (slice_upto flux_lw_dusty l_crop)"
    by (metis (no_types))
  then show ?thesis
    using slice_from_empty_iff [of seq n] slice_upto_empty_iff [of e seq] by blast
qed

text \<open>
  Offsets of five on arrays of three samples: the cell returns two empty curves.
\<close>

theorem excise_edges_never_fails_witness:
  "length [Fin 1, Fin 1, Fin 1] = length [Fin 1, Fin 1, Fin 1]
   \<and> excise_edges \<lparr>V_dusty = Fin 1, V_nodust = Fin 1, EBV = Fin 1, figure = []\<rparr> 5 (- 5)
        [Fin 1, Fin 1, Fin 1] [Fin 1, Fin 1, Fin 1] [Fin 1, Fin 1, Fin 1]
        [Fin 1, Fin 1, Fin 1] [Fin 1, Fin 1, Fin 1] [Fin 1, Fin 1, Fin 1]
     = Inr ((([], []), ([], [])),
            \<lparr>V_dusty = Fin 1, V_nodust = Fin 1, EBV = Fin 1, figure = [([], []), ([], [])]\<rparr>)
   \<and> slice_from [1, 2, 3 :: int] (int 5) = [] \<and> length [1, 2, 3 :: int] \<le> 5
   \<and> (0::nat) < 5 \<and> slice_upto [1, 2, 3 :: int] (- int 5) = []
   \<and> slice_from [1, 2, 3 :: int] (int 2) \<noteq> [] \<and> \<not> length [1, 2, 3 :: int] \<le> 2"
proof -
  let ?a = "[Fin 1, Fin 1, Fin 1]"
  let ?s = "\<lparr>V_dusty = Fin 1, V_nodust = Fin 1, EBV = Fin 1, figure = []\<rparr>"
  have l: "length ?a = length ?a"
    by simp
  have e: "slice_from ?a 5 = []" "slice_upto ?a (- 5) = []"
    by (simp_all add: slice_from_def slice_upto_def adjust_index_def)
  have run: "excise_edges ?s 5 (- 5) ?a ?a ?a ?a ?a ?a
     = Inr ((([], []), ([], [])),
            \<lparr>V_dusty = Fin 1, V_nodust = Fin 1, EBV = Fin 1, figure = [([], []), ([], [])]\<rparr>)"
    by (simp add: excise_edges_def e Extinction_same_length)
  note t = excise_edges_never_fails [OF l l l l, of ?s 5 "- 5"]
  have 1: "slice_from [1, 2, 3 :: int] (int 5) = []"
    using t [of "[1, 2, 3 :: int]" 5] by simp
  have 2: "slice_upto [1, 2, 3 :: int] (- int 5) = []"
    using t [of "[1, 2, 3 :: int]" 5 5] by simp
  have 3: "slice_from [1, 2, 3 :: int] (int 2) \<noteq> []"
    using t [of "[1, 2, 3 :: int]" 2] by simp
  from l run 1 2 3 show ?thesis
    by simp
qed

text \<open>
  Offsets of two and two on arrays of three samples: the offsets add up to more than the
  length, and the cell returns two curves of one sample each.
\<close>

theorem excise_edges_no_range_error_counterexample:
  "length [1, 2, 3 :: int] \<le> 2 + 2
   \<and> slice_from [1, 2, 3 :: int] 2 = [3] \<and> slice_upto [1, 2, 3 :: int] (- 2) = [1]
   \<and> excise_edges \<lparr>V_dusty = Fin 1, V_nodust = Fin 1, EBV = Fin 1, figure = []\<rparr> 2 (- 2)
        [Fin 1, Fin 1, Fin 1] [Fin 1, Fin 1, Fin 1] [Fin 1, Fin 1, Fin 1]
        [Fin 1, Fin 1, Fin 1] [Fin 1, Fin 1, Fin 1] [Fin 1, Fin 1, Fin 1]
     = Inr ((([Fin 10000], [Fin 0]), ([Fin 10000], [Fin 0])),
            \<lparr>V_dusty = Fin 1, V_nodust = Fin 1, EBV = Fin 1,
             figure = [([Fin 10000], [Fin 0]), ([Fin 10000], [Fin 0])]\<rparr>)"
proof -
  let ?a = "[Fin 1, Fin 1, Fin 1]"
  have e: "slice_from ?a 2 = [Fin 1]" "slice_upto ?a (- 2) = [Fin 1]"
    by (simp_all add: slice_from_def slice_upto_def adjust_index_def)
  have o: "fdiv (Fin 1) (Fin 1) = Fin 1" "fdiv (Fin 10000) (Fin 1) = Fin 10000"
    "flog (Fin 1) = Fin 0" "fdiv (Fin 0) (Fin 1) = Fin 0"
    by (simp_all add: fdiv_Fin round64_1 round64_10000 flog_def round64_0)
       (simp add: npfloat_defs)
  show ?thesis
    by (simp add: excise_edges_def e Extinction_single o)
       (simp add: slice_from_def slice_upto_def adjust_index_def)
qed

text \<open>
  Claim C4, as the code has it. The cell drops samples at one end of each array: the
  first \<open>sc\<close> of a short-wavelength array (\<open>seq[sc:]\<close>, of length \<open>length seq - sc\<close>), the
  last \<open>e\<close> of a long-wavelength array (\<open>seq[:-e]\<close> for \<open>e \<ge> 1\<close>, of length
  \<open>length seq - e\<close>). What is kept stays in its order, and the two curves of the cell
  have these lengths.
\<close>

theorem excise_edges_drops_one_end:
  assumes "length wav_sw_dusty = length flux_sw_dusty"
    and "length flux_sw_dusty = length flux_sw_nodust"
    and "length wav_lw_dusty = length flux_lw_dusty"
    and "length flux_lw_dusty = length flux_lw_nodust"
    and "0 < e"
  shows "(\<exists>short long s'.
            excise_edges s (int sc) (- int e) wav_sw_dusty flux_sw_dusty flux_sw_nodust
                wav_lw_dusty flux_lw_dusty flux_lw_nodust
              = Inr ((short, long), s')
            \<and> length (fst short) = length wav_sw_dusty - sc
            \<and> length (snd short) = length wav_sw_dusty - sc
            \<and> length (fst long) = length wav_lw_dusty - e
            \<and> length (snd long) = length wav_lw_dusty - e)
         \<and> slice_from seq (int sc) = drop sc seq
         \<and> length (slice_from seq (int sc)) = length seq - sc
         \<and> seq = take sc seq @ slice_from seq (int sc)
         \<and> slice_upto seq (- int e) = take (length seq - e) seq
         \<and> length (slice_upto seq (- int e)) = length seq - e
         \<and> seq = slice_upto seq (- int e) @ drop (length seq - e) seq"
proof -
  from excise_edges_returns [OF assms(1-4), of s "int sc" "- int e"]
  obtain short long where
    "excise_edges s (int sc) (- int e) wav_sw_dusty flux_sw_dusty flux_sw_nodust
         wav_lw_dusty flux_lw_dusty flux_lw_nodust
       = Inr ((short, long), s\<lparr>figure := [short, long]\<rparr>)"
    "length (fst short) = length (slice_from wav_sw_dusty (int sc))"
    "length (snd short) = length (slice_from wav_sw_dusty (int sc))"
    "length (fst long) = length (slice_upto wav_lw_dusty (- int e))"
    "length (snd long) = length (slice_upto wav_lw_dusty (- int e))"
    by blast
  then have cell: "\<exists>short long s'.
            excise_edges s (int sc) (- int e) wav_sw_dusty flux_sw_dusty flux_sw_nodust
                wav_lw_dusty flux_lw_dusty flux_lw_nodust
              = Inr ((short, long), s')
            \<and> length (fst short) = length wav_sw_dusty - sc
            \<and> length (snd short) = length wav_sw_dusty - sc
            \<and> length (fst long) = length wav_lw_dusty - e
            \<and> length (snd long) = length wav_lw_dusty - e"
    using assms(5) by (simp add: slice_from_nat slice_upto_neg)
  have "slice_from seq (int sc) = drop sc seq"
    and "length (slice_from seq (int sc)) = length seq - sc"
    and "seq = take sc seq @ slice_from seq (int sc)"
    and "slice_upto seq (- int e) = take (length seq - e) seq"
    and "length (slice_upto seq (- int e)) = length seq - e"
    and "seq = slice_upto seq (- int e) @ drop (length seq - e) seq"
    using assms(5) by (simp_all add: slice_from_nat slice_upto_neg)
  with cell show ?thesis
    by (intro conjI)
qed

text \<open>
  On the ten samples \<open>[0, \<dots>, 9]\<close>: \<open>seq[2:]\<close> has the eight samples from 2 on and
  \<open>seq[:-3]\<close> the seven samples up to 6.
\<close>

theorem excise_edges_drops_one_end_witness:
  "length [Fin 1, Fin 1, Fin 1] = length [Fin 1, Fin 1, Fin 1] \<and> (0::nat) < 3
   \<and> slice_from [0, 1, 2, 3, 4, 5, 6, 7, 8, 9 :: int] (int 2) = [2, 3, 4, 5, 6, 7, 8, 9]
   \<and> length (slice_from [0, 1, 2, 3, 4, 5, 6, 7, 8, 9 :: int] (int 2)) = 10 - 2
   \<and> slice_upto [0, 1, 2, 3, 4, 5, 6, 7, 8, 9 :: int] (- int 3) = [0, 1, 2, 3, 4, 5, 6]
   \<and> length (slice_upto [0, 1, 2, 3, 4, 5, 6, 7, 8, 9 :: int] (- int 3)) = 10 - 3"
proof -
  let ?a = "[Fin 1, Fin 1, Fin 1]"
  have l: "length ?a = length ?a" and h: "(0::nat) < 3"
    by simp_all
  note t = excise_edges_drops_one_end [OF l l l l h,
      of "\<lparr>V_dusty = Fin 1, V_nodust = Fin 1, EBV = Fin 1, figure = []\<rparr>" 2
         "[0, 1, 2, 3, 4, 5, 6, 7, 8, 9 :: int]"]
  have 1: "slice_from [0, 1, 2, 3, 4, 5, 6, 7, 8, 9 :: int] (int 2) = [2, 3, 4, 5, 6, 7, 8, 9]"
    using t [THEN conjunct2, THEN conjunct1] by simp
  have 2: "length (slice_from [0, 1, 2, 3, 4, 5, 6, 7, 8, 9 :: int] (int 2)) = 10 - 2"
    using t [THEN conjunct2, THEN conjunct2, THEN conjunct1] by simp
  have 3: "slice_upto [0, 1, 2, 3, 4, 5, 6, 7, 8, 9 :: int] (- int 3) = [0, 1, 2, 3, 4, 5, 6]"
    using t [THEN conjunct2, THEN conjunct2, THEN conjunct2, THEN conjunct2, THEN conjunct1]
    by simp
  have 4: "length (slice_upto [0, 1, 2, 3, 4, 5, 6, 7, 8, 9 :: int] (- int 3)) = 10 - 3"
    using t [THEN conjunct2, THEN conjunct2, THEN conjunct2, THEN conjunct2, THEN conjunct2,
      THEN conjunct1]
    by simp
  from l h 1 2 3 4 show ?thesis
    by (intro conjI)
qed

text \<open>
  Neither slice of the cell is \<open>[2, 3, 4, 5, 6]\<close>, and neither has \<open>10 - 2 - 3\<close> samples:
  no array of the notebook is cut at both ends.
\<close>

theorem excise_edges_both_ends_counterexample:
  "(2::nat) + 3 < length [0, 1, 2, 3, 4, 5, 6, 7, 8, 9 :: int]
   \<and> slice_from [0, 1, 2, 3, 4, 5, 6, 7, 8, 9 :: int] 2 = [2, 3, 4, 5, 6, 7, 8, 9]
   \<and> slice_upto [0, 1, 2, 3, 4, 5, 6, 7, 8, 9 :: int] (- 3) = [0, 1, 2, 3, 4, 5, 6]
   \<and> slice_from [0, 1, 2, 3, 4, 5, 6, 7, 8, 9 :: int] 2 \<noteq> [2, 3, 4, 5, 6]
   \<and> slice_upto [0, 1, 2, 3, 4, 5, 6, 7, 8, 9 :: int] (- 3) \<noteq> [2, 3, 4, 5, 6]
   \<and> length (slice_from [0, 1, 2, 3, 4, 5, 6, 7, 8, 9 :: int] 2) \<noteq> 10 - 2 - 3
   \<and> length (slice_upto [0, 1, 2, 3, 4, 5, 6, 7, 8, 9 :: int] (- 3)) \<noteq> 10 - 2 - 3"
  by (simp add: slice_from_def slice_upto_def adjust_index_def)

text \<open>
  Claim C5. On arrays of one length \<open>Extinction\<close> returns, whatever the values: a zero
  denominator raises nothing. Where \<open>flux2[i]\<close> is a zero, or \<open>V_nodust\<close> is, the
  extinction at \<open>i\<close> is not finite. Its value is then fixed by the signs: for a zero
  \<open>flux2[i]\<close> it is NaN when \<open>flux1[i]\<close> is a zero or NaN (or \<open>V_dusty / V_nodust\<close> or
  \<open>EBV\<close> is not finite) and otherwise the infinity of the sign opposite to \<open>EBV\<close>; for a
  zero \<open>V_nodust\<close> it is NaN when \<open>V_dusty\<close> is a zero or NaN, when the flux ratio or
  \<open>EBV\<close> is not finite, or when the flux ratio and \<open>V_dusty / V_nodust\<close> differ in sign,
  and otherwise the infinity of the sign of \<open>EBV\<close>.
\<close>

theorem Extinction_degenerate:
  assumes "length flux1 = length flux2" and "length wav = length flux1"
  shows "\<exists>inv_wav ext s'.
      Extinction s wav flux1 flux2 = Inr ((inv_wav, ext), s')
      \<and> length ext = length flux1
      \<and> (\<forall>i<length flux1.
            (is_zero (flux2 ! i) \<or> is_zero (V_nodust s) \<longrightarrow> \<not> isfinite (ext ! i))
            \<and> (is_zero (flux2 ! i) \<longrightarrow>
                 ext ! i =
                   (if flux1 ! i = NaN \<or> is_zero (flux1 ! i)
                       \<or> \<not> isfinite (fdiv (V_dusty s) (V_nodust s))
                       \<or> \<not> isfinite (EBV s) then NaN
                    else signed_inf (\<not> signbit (EBV s))))
            \<and> (is_zero (V_nodust s) \<longrightarrow>
                 ext ! i =
                   (if V_dusty s = NaN \<or> is_zero (V_dusty s)
                       \<or> \<not> isfinite (fdiv (flux1 ! i) (flux2 ! i))
                       \<or> \<not> isfinite (EBV s)
                       \<or> (signbit (V_dusty s) \<noteq> signbit (V_nodust s))
                            \<noteq> signbit (fdiv (flux1 ! i) (flux2 ! i)) then NaN
                    else signed_inf (signbit (EBV s)))))"
proof -
  let ?inv = "map (fdiv (Fin (10 ^ 4))) wav"
  let ?ext = "map (\<lambda>x. fdiv x (EBV s))
      (map flog (map (fdiv (fdiv (V_dusty s) (V_nodust s))) (map2 fdiv flux1 flux2)))"
  let ?s' = "s\<lparr>figure := figure s @ [(?inv, ?ext)]\<rparr>"
  have run: "Extinction s wav flux1 flux2 = Inr ((?inv, ?ext), ?s')"
    using assms by (rule Extinction_same_length)
  have len: "length ?ext = length flux1"
    using assms(1) by simp
  have vals: "(is_zero (flux2 ! i) \<or> is_zero (V_nodust s) \<longrightarrow> \<not> isfinite (?ext ! i))
            \<and> (is_zero (flux2 ! i) \<longrightarrow>
                 ?ext ! i =
                   (if flux1 ! i = NaN \<or> is_zero (flux1 ! i)
                       \<or> \<not> isfinite (fdiv (V_dusty s) (V_nodust s))
                       \<or> \<not> isfinite (EBV s) then NaN
                    else signed_inf (\<not> signbit (EBV s))))
            \<and> (is_zero (V_nodust s) \<longrightarrow>
                 ?ext ! i =
                   (if V_dusty s = NaN \<or> is_zero (V_dusty s)
                       \<or> \<not> isfinite (fdiv (flux1 ! i) (flux2 ! i))
                       \<or> \<not> isfinite (EBV s)
                       \<or> (signbit (V_dusty s) \<noteq> signbit (V_nodust s))
                            \<noteq> signbit (fdiv (flux1 ! i) (flux2 ! i)) then NaN
                    else signed_inf (signbit (EBV s))))"
    if i: "i < length flux1" for i
  proof -
    have e: "?ext ! i = fdiv (flog (fdiv (fdiv (V_dusty s) (V_nodust s))
                                      (fdiv (flux1 ! i) (flux2 ! i)))) (EBV s)"
      using i assms(1) by simp
    show ?thesis
      unfolding e
      using ext_nonfinite [of "flux2 ! i" "V_nodust s" "V_dusty s" "flux1 ! i" "EBV s"]
        ext_zero_flux2 [of "flux2 ! i" "fdiv (V_dusty s) (V_nodust s)" "flux1 ! i" "EBV s"]
        ext_zero_V_nodust [of "V_nodust s" "V_dusty s" "fdiv (flux1 ! i) (flux2 ! i)" "EBV s"]
      by blast
  qed
  from run len vals show ?thesis
    by blast
qed

text \<open>
  With \<open>flux2 = [0, 0, -0]\<close> and \<open>flux1 = [1, 0, -3]\<close> the extinction is
  \<open>[-inf, NaN, -inf]\<close>; with \<open>V_nodust = 0\<close> and flux ratios \<open>1\<close> and \<open>-1\<close> it is
  \<open>[+inf, NaN]\<close>.
\<close>

theorem Extinction_degenerate_witness:
  "length [Fin 1, Fin 0, Fin (- 3)] = length [Fin 0, Fin 0, NegZero]
   \<and> length [Fin 1000, Fin 2000, Fin 2500] = length [Fin 1, Fin 0, Fin (- 3)]
   \<and> is_zero ([Fin 0, Fin 0, NegZero] ! 0) \<and> is_zero ([Fin 0, Fin 0, NegZero] ! 1)
   \<and> is_zero ([Fin 0, Fin 0, NegZero] ! 2)
   \<and> Extinction \<lparr>V_dusty = Fin 1, V_nodust = Fin 2, EBV = Fin 1, figure = []\<rparr>
         [Fin 1000, Fin 2000, Fin 2500] [Fin 1, Fin 0, Fin (- 3)] [Fin 0, Fin 0, NegZero]
       = Inr (([Fin 10, Fin 5, Fin 4], [NInf, NaN, NInf]),
              \<lparr>V_dusty = Fin 1, V_nodust = Fin 2, EBV = Fin 1,
               figure = [([Fin 10, Fin 5, Fin 4], [NInf, NaN, NInf])]\<rparr>)
   \<and> \<not> isfinite ([NInf, NaN, NInf] ! 0)
   \<and> is_zero (V_nodust \<lparr>V_dusty = Fin 1, V_nodust = Fin 0, EBV = Fin 1, figure = []\<rparr>)
   \<and> Extinction \<lparr>V_dusty = Fin 1, V_nodust = Fin 0, EBV = Fin 1, figure = []\<rparr>
         [Fin 1000, Fin 2000] [Fin 1, Fin (- 1)] [Fin 1, Fin 1]
       = Inr (([Fin 10, Fin 5], [PInf, NaN]),
              \<lparr>V_dusty = Fin 1, V_nodust = Fin 0, EBV = Fin 1,
               figure = [([Fin 10, Fin 5], [PInf, NaN])]\<rparr>)
   \<and> \<not> isfinite ([PInf, NaN] ! 1)"
proof -
  let ?s = "\<lparr>V_dusty = Fin 1, V_nodust = Fin 2, EBV = Fin 1, figure = []\<rparr>"
  let ?wav = "[Fin 1000, Fin 2000, Fin 2500]"
  let ?f1 = "[Fin 1, Fin 0, Fin (- 3)]"
  let ?f2 = "[Fin 0, Fin 0, NegZero]"
  let ?t = "\<lparr>V_dusty = Fin 1, V_nodust = Fin 0, EBV = Fin 1, figure = []\<rparr>"
  let ?g1 = "[Fin 1, Fin (- 1)]"
  let ?g2 = "[Fin 1, Fin 1]"
  have h1: "length ?f1 = length ?f2" and h2: "length ?wav = length ?f1"
    and k1: "length ?g1 = length ?g2" and k2: "length [Fin 1000, Fin 2000] = length ?g1"
    by simp_all
  have z: "is_zero (?f2 ! 0)" "is_zero (?f2 ! 1)" "is_zero (?f2 ! 2)" "is_zero (V_nodust ?t)"
    by (simp_all add: is_zero_def)
  have inv: "fdiv (Fin 10000) (Fin 1000) = Fin 10" "fdiv (Fin 10000) (Fin 2000) = Fin 5"
    "fdiv (Fin 10000) (Fin 2500) = Fin 4"
    by (simp_all add: fdiv_Fin round64_10 round64_5 round64_4)
  have v: "fdiv (Fin 1) (Fin 2) = Fin (1 / 2)" "fdiv (Fin 1) (Fin 1) = Fin 1"
    "fdiv (Fin (- 1)) (Fin 1) = Fin (- 1)"
    using round64_int [of "- 1"] by (simp_all add: fdiv_Fin round64_half round64_1)
  have sp: "fdiv (Fin 1) (Fin 0) = PInf" "fdiv (Fin 0) (Fin 0) = NaN"
    "fdiv (Fin (- 3)) NegZero = PInf" "fdiv (Fin (1 / 2)) PInf = Fin 0"
    "fdiv (Fin (1 / 2)) NaN = NaN" "flog (Fin 0) = NInf" "flog NaN = NaN"
    "fdiv NInf (Fin 1) = NInf" "fdiv NaN (Fin 1) = NaN"
    "fdiv PInf (Fin 1) = PInf" "fdiv PInf (Fin (- 1)) = NInf" "flog PInf = PInf"
    "flog NInf = NaN"
    by (simp_all add: npfloat_defs)
  have run: "Extinction ?s ?wav ?f1 ?f2
       = Inr (([Fin 10, Fin 5, Fin 4], [NInf, NaN, NInf]),
              \<lparr>V_dusty = Fin 1, V_nodust = Fin 2, EBV = Fin 1,
               figure = [([Fin 10, Fin 5, Fin 4], [NInf, NaN, NInf])]\<rparr>)"
    by (simp add: Extinction_same_length inv v sp)
  have run2: "Extinction ?t [Fin 1000, Fin 2000] ?g1 ?g2
       = Inr (([Fin 10, Fin 5], [PInf, NaN]),
              \<lparr>V_dusty = Fin 1, V_nodust = Fin 0, EBV = Fin 1,
               figure = [([Fin 10, Fin 5], [PInf, NaN])]\<rparr>)"
    by (simp add: Extinction_same_length inv v sp)
  from Extinction_degenerate [OF h1 h2, of ?s]
  obtain inv_wav ext s' where
    r: "Extinction ?s ?wav ?f1 ?f2 = Inr ((inv_wav, ext), s')" and
    n: "\<forall>i<length ?f1. is_zero (?f2 ! i) \<or> is_zero (V_nodust ?s) \<longrightarrow> \<not> isfinite (ext ! i)"
    by blast
  from r run have "ext = [NInf, NaN, NInf]"
    by simp
  moreover have "\<not> isfinite (ext ! 0)"
    using n [rule_format, of 0] z(1) by simp
  ultimately have a: "\<not> isfinite ([NInf, NaN, NInf] ! 0)"
    by simp
  from Extinction_degenerate [OF k1 k2, of ?t]
  obtain inv_wav2 ext2 s2 where
    r2: "Extinction ?t [Fin 1000, Fin 2000] ?g1 ?g2 = Inr ((inv_wav2, ext2), s2)" and
    n2: "\<forall>i<length ?g1. is_zero (?g2 ! i) \<or> is_zero (V_nodust ?t) \<longrightarrow> \<not> isfinite (ext2 ! i)"
    by blast
  from r2 run2 have "ext2 = [PInf, NaN]"
    by simp
  moreover have "\<not> isfinite (ext2 ! 1)"
    using n2 [rule_format, of 1] z(4) by simp
  ultimately have b: "\<not> isfinite ([PInf, NaN] ! 1)"
    by simp
  from h1 h2 z run a run2 b show ?thesis
    by (intro conjI)
qed

text \<open>
  Claim C6, as the code has it. Multiplying both flux arrays by a positive constant \<open>c\<close>
  leaves the result of \<open>Extinction\<close> as it is when every product \<open>c * x\<close> is exact, that
  is, neither rounded nor overflowing nor underflowing. This is so in particular when \<open>c\<close>
  is a power of two and every non-zero product lies in the normal range, from
  \<open>2^-1022\<close> up to \<open>2^1024\<close>.
\<close>

theorem Extinction_scaling_exact:
  assumes "0 < c"
    and "(\<forall>x \<in> set flux1 \<union> set flux2. exact_product c x)
         \<or> (\<exists>k. c = 2 powi k)
            \<and> (\<forall>x \<in> set flux1 \<union> set flux2.
                  is_double x
                  \<and> (\<forall>r. x = Fin r \<longrightarrow>
                        r = 0 \<or> 2 powi (- 1022) \<le> c * \<bar>r\<bar> \<and> c * \<bar>r\<bar> < 2 ^ 1024))"
  shows "Extinction s wav (map (fmul (Fin c)) flux1) (map (fmul (Fin c)) flux2)
         = Extinction s wav flux1 flux2"
proof -
  from assms(2) have "\<forall>x \<in> set flux1 \<union> set flux2. exact_product c x"
  proof
    assume "\<forall>x \<in> set flux1 \<union> set flux2. exact_product c x"
    then show ?thesis .
  next
    assume p: "(\<exists>k. c = 2 powi k)
            \<and> (\<forall>x \<in> set flux1 \<union> set flux2.
                  is_double x
                  \<and> (\<forall>r. x = Fin r \<longrightarrow>
                        r = 0 \<or> 2 powi (- 1022) \<le> c * \<bar>r\<bar> \<and> c * \<bar>r\<bar> < 2 ^ 1024))"
    then obtain k where c: "c = 2 powi k"
      by blast
    show ?thesis
    proof
      fix x
      assume "x \<in> set flux1 \<union> set flux2"
      with p have "is_double x"
        and "\<forall>r. x = Fin r \<longrightarrow>
               r = 0 \<or> 2 powi (- 1022) \<le> 2 powi k * \<bar>r\<bar> \<and> 2 powi k * \<bar>r\<bar> < 2 ^ 1024"
        unfolding c by blast+
      then show "exact_product c x"
        unfolding c by (rule exact_product_pow2)
    qed
  qed
  with assms(1) show ?thesis
    by (rule Extinction_exact_products)
qed

text \<open>
  The fluxes \<open>[1, 2, 4]\<close> and \<open>[2, 2, 2]\<close> doubled.
\<close>

theorem Extinction_scaling_exact_witness:
  "(0::real) < 2
   \<and> exact_product 2 (Fin 1) \<and> exact_product 2 (Fin 2) \<and> exact_product 2 (Fin 4)
   \<and> map (fmul (Fin 2)) [Fin 1, Fin 2, Fin 4] = [Fin 2, Fin 4, Fin 8]
   \<and> map (fmul (Fin 2)) [Fin 2, Fin 2, Fin 2] = [Fin 4, Fin 4, Fin 4]
   \<and> Extinction \<lparr>V_dusty = Fin 1, V_nodust = Fin 2, EBV = Fin 1, figure = []\<rparr>
        [Fin 1000, Fin 2000, Fin 2500] [Fin 2, Fin 4, Fin 8] [Fin 4, Fin 4, Fin 4]
      = Extinction \<lparr>V_dusty = Fin 1, V_nodust = Fin 2, EBV = Fin 1, figure = []\<rparr>
        [Fin 1000, Fin 2000, Fin 2500] [Fin 1, Fin 2, Fin 4] [Fin 2, Fin 2, Fin 2]"
proof -
  have h: "(0::real) < 2"
    by simp
  have p: "fmul (Fin 2) (Fin 1) = Fin 2" "fmul (Fin 2) (Fin 2) = Fin 4"
    "fmul (Fin 2) (Fin 4) = Fin 8"
    using round64_int [of 8] by (simp_all add: fmul_Fin round64_2 round64_4)
  then have e: "exact_product 2 (Fin 1)" "exact_product 2 (Fin 2)" "exact_product 2 (Fin 4)"
    by (simp_all add: exact_product_def)
  then have a: "(\<forall>x \<in> set [Fin 1, Fin 2, Fin 4] \<union> set [Fin 2, Fin 2, Fin 2]. exact_product 2 x)
         \<or> (\<exists>k. (2::real) = 2 powi k)
            \<and> (\<forall>x \<in> set [Fin 1, Fin 2, Fin 4] \<union> set [Fin 2, Fin 2, Fin 2].
                  is_double x
                  \<and> (\<forall>r. x = Fin r \<longrightarrow>
                        r = 0 \<or> 2 powi (- 1022) \<le> 2 * \<bar>r\<bar> \<and> 2 * \<bar>r\<bar> < 2 ^ 1024))"
    by simp
  have m: "map (fmul (Fin 2)) [Fin 1, Fin 2, Fin 4] = [Fin 2, Fin 4, Fin 8]"
    "map (fmul (Fin 2)) [Fin 2, Fin 2, Fin 2] = [Fin 4, Fin 4, Fin 4]"
    by (simp_all add: p)
  from Extinction_scaling_exact [OF h a,
      of "\<lparr>V_dusty = Fin 1, V_nodust = Fin 2, EBV = Fin 1, figure = []\<rparr>"
         "[Fin 1000, Fin 2000, Fin 2500]"]
  have "Extinction \<lparr>V_dusty = Fin 1, V_nodust = Fin 2, EBV = Fin 1, figure = []\<rparr>
        [Fin 1000, Fin 2000, Fin 2500] [Fin 2, Fin 4, Fin 8] [Fin 4, Fin 4, Fin 4]
      = Extinction \<lparr>V_dusty = Fin 1, V_nodust = Fin 2, EBV = Fin 1, figure = []\<rparr>
        [Fin 1000, Fin 2000, Fin 2500] [Fin 1, Fin 2, Fin 4] [Fin 2, Fin 2, Fin 2]"
    by (simp only: m)
  with h e m show ?thesis
    by (intro conjI)
qed

text \<open>
  The law fails where a product overflows: with both fluxes \<open>2^1023\<close> and \<open>c = 2\<close> the
  scaled fluxes are infinite, their ratio is NaN and so is the extinction, while the
  unscaled fluxes give the extinction \<open>0\<close>.
\<close>

theorem Extinction_scaling_overflow_counterexample:
  "(0::real) < 2 \<and> is_double (Fin (2 ^ 1023))
   \<and> Extinction \<lparr>V_dusty = Fin 1, V_nodust = Fin 1, EBV = Fin 1, figure = []\<rparr>
       [Fin 1] (map (fmul (Fin 2)) [Fin (2 ^ 1023)]) (map (fmul (Fin 2)) [Fin (2 ^ 1023)])
     = Inr (([Fin 10000], [NaN]),
            \<lparr>V_dusty = Fin 1, V_nodust = Fin 1, EBV = Fin 1,
             figure = [([Fin 10000], [NaN])]\<rparr>)
   \<and> Extinction \<lparr>V_dusty = Fin 1, V_nodust = Fin 1, EBV = Fin 1, figure = []\<rparr>
       [Fin 1] [Fin (2 ^ 1023)] [Fin (2 ^ 1023)]
     = Inr (([Fin 10000], [Fin 0]),
            \<lparr>V_dusty = Fin 1, V_nodust = Fin 1, EBV = Fin 1,
             figure = [([Fin 10000], [Fin 0])]\<rparr>)"
proof -
  define y :: real where "y = 2 ^ 1023"
  have y0: "y \<noteq> 0"
    by (simp add: y_def)
  have two: "2 * y = 2 ^ 1024"
    by (simp add: y_def)
  have "fmul (Fin 2) (Fin y) = round64 (2 * y)"
    using y0 by (simp add: fmul_Fin)
  then have p: "fmul (Fin 2) (Fin y) = PInf"
    by (simp only: two round64_pow2_1024)
  have "fdiv (Fin y) (Fin y) = round64 (y / y)"
    using y0 y0 by (rule fdiv_Fin)
  then have q: "fdiv (Fin y) (Fin y) = Fin 1"
    using y0 by (simp add: round64_1)
  have o: "fdiv (Fin 1) (Fin 1) = Fin 1" "fdiv (Fin (10 ^ 4)) (Fin 1) = Fin 10000"
    "flog (Fin 1) = Fin 0"
    by (simp_all add: fdiv_Fin round64_1 round64_10000 flog_def round64_0)
  have i: "fdiv PInf PInf = NaN" "fdiv (Fin 1) NaN = NaN" "flog NaN = NaN"
    "fdiv NaN (Fin 1) = NaN" "fdiv (Fin 0) (Fin 1) = Fin 0"
    by (simp_all add: npfloat_defs)
  have scaled: "Extinction \<lparr>V_dusty = Fin 1, V_nodust = Fin 1, EBV = Fin 1, figure = []\<rparr>
       [Fin 1] (map (fmul (Fin 2)) [Fin y]) (map (fmul (Fin 2)) [Fin y])
     = Inr (([Fin 10000], [NaN]),
            \<lparr>V_dusty = Fin 1, V_nodust = Fin 1, EBV = Fin 1,
             figure = [([Fin 10000], [NaN])]\<rparr>)"
  proof -
    have "Extinction \<lparr>V_dusty = Fin 1, V_nodust = Fin 1, EBV = Fin 1, figure = []\<rparr>
          [Fin 1] [PInf] [PInf]
     = Inr (([fdiv (Fin (10 ^ 4)) (Fin 1)],
             [fdiv (flog (fdiv (fdiv (Fin 1) (Fin 1)) (fdiv PInf PInf))) (Fin 1)]),
            \<lparr>V_dusty = Fin 1, V_nodust = Fin 1, EBV = Fin 1,
             figure = [([fdiv (Fin (10 ^ 4)) (Fin 1)],
               [fdiv (flog (fdiv (fdiv (Fin 1) (Fin 1)) (fdiv PInf PInf))) (Fin 1)])]\<rparr>)"
      by (simp add: Extinction_single)
    then show ?thesis
      by (simp only: list.map p o i)
  qed
  have plain: "Extinction \<lparr>V_dusty = Fin 1, V_nodust = Fin 1, EBV = Fin 1, figure = []\<rparr>
       [Fin 1] [Fin y] [Fin y]
     = Inr (([Fin 10000], [Fin 0]),
            \<lparr>V_dusty = Fin 1, V_nodust = Fin 1, EBV = Fin 1,
             figure = [([Fin 10000], [Fin 0])]\<rparr>)"
  proof -
    have "Extinction \<lparr>V_dusty = Fin 1, V_nodust = Fin 1, EBV = Fin 1, figure = []\<rparr>
          [Fin 1] [Fin y] [Fin y]
     = Inr (([fdiv (Fin (10 ^ 4)) (Fin 1)],
             [fdiv (flog (fdiv (fdiv (Fin 1) (Fin 1)) (fdiv (Fin y) (Fin y)))) (Fin 1)]),
            \<lparr>V_dusty = Fin 1, V_nodust = Fin 1, EBV = Fin 1,
             figure = [([fdiv (Fin (10 ^ 4)) (Fin 1)],
               [fdiv (flog (fdiv (fdiv (Fin 1) (Fin 1)) (fdiv (Fin y) (Fin y)))) (Fin 1)])]\<rparr>)"
      by (simp add: Extinction_single)
    then show ?thesis
      by (simp only: q o i)
  qed
  have d: "is_double (Fin y)"
    unfolding y_def by (simp only: is_double_def npfloat.case round64_pow2_1023)
  have h: "(0::real) < 2"
    by simp
  from h d scaled plain show ?thesis
    unfolding y_def by (intro conjI)
qed

text \<open>
  Claim C8. Alignment is one-sided: the target comes back unchanged and only the
  reference arrays are cut, to the lengths of the target's arrays. When the target is
  the longer of the two, the cell shortens neither, and the outputs stay of unequal
  length.
\<close>

theorem align_one_sided:
  "fst (align dusty nodust) = dusty
   \<and> snd (align dusty nodust)
       = nodust\<lparr>wavs := take (length (wavs dusty)) (wavs nodust),
                fluxes := take (length (fluxes dusty)) (fluxes nodust)\<rparr>
   \<and> (length (wavs nodust) < length (wavs dusty)
        \<and> length (fluxes nodust) < length (fluxes dusty) \<longrightarrow>
        align dusty nodust = (dusty, nodust)
        \<and> length (wavs (snd (align dusty nodust))) < length (wavs (fst (align dusty nodust)))
        \<and> length (fluxes (snd (align dusty nodust)))
            < length (fluxes (fst (align dusty nodust))))"
  by (simp add: align_def slice_upto_nat)

theorem align_one_sided_witness:
  "length (wavs \<lparr>wavs = [1, 2, 3 :: int], fluxes = [7, 8, 9]\<rparr>)
     < length (wavs \<lparr>wavs = [1, 2, 3, 4, 5 :: int], fluxes = [10, 20, 30, 40, 50]\<rparr>)
   \<and> length (fluxes \<lparr>wavs = [1, 2, 3 :: int], fluxes = [7, 8, 9]\<rparr>)
     < length (fluxes \<lparr>wavs = [1, 2, 3, 4, 5 :: int], fluxes = [10, 20, 30, 40, 50]\<rparr>)
   \<and> align \<lparr>wavs = [1, 2, 3, 4, 5 :: int], fluxes = [10, 20, 30, 40, 50]\<rparr>
           \<lparr>wavs = [1, 2, 3], fluxes = [7, 8, 9]\<rparr>
     = (\<lparr>wavs = [1, 2, 3, 4, 5], fluxes = [10, 20, 30, 40, 50]\<rparr>,
        \<lparr>wavs = [1, 2, 3], fluxes = [7, 8, 9]\<rparr>)"
  using align_one_sided
    [of "\<lparr>wavs = [1, 2, 3, 4, 5 :: int], fluxes = [10, 20, 30, 40, 50]\<rparr>"
        "\<lparr>wavs = [1, 2, 3], fluxes = [7, 8, 9]\<rparr>"]
  by simp

text \<open>
  Claim C9, as the code has it. The slices of the cell clamp their bounds: for every
  offset the result is a contiguous part of the array, never longer than it, with
  \<open>length seq - sc\<close> samples for \<open>seq[sc:]\<close> and \<open>length seq - e\<close> for \<open>seq[:-e]\<close>
  (\<open>e \<ge> 1\<close>); it is empty once the offset reaches the length of the array, and strictly
  shorter than a non-empty array when the offset is at least one. \<open>Extinction\<close> on the
  slices of three arrays of one length returns, for every offset.
\<close>

theorem slices_clamp:
  "sublist (slice_from seq i) seq \<and> sublist (slice_upto seq j) seq
   \<and> length (slice_from seq i) \<le> length seq \<and> length (slice_upto seq j) \<le> length seq
   \<and> length (slice_from seq (int sc)) = length seq - sc
   \<and> (length seq \<le> sc \<longrightarrow> slice_from seq (int sc) = [])
   \<and> (0 < sc \<and> seq \<noteq> [] \<longrightarrow> length (slice_from seq (int sc)) < length seq)
   \<and> (0 < e \<longrightarrow>
        length (slice_upto seq (- int e)) = length seq - e
        \<and> (length seq \<le> e \<longrightarrow> slice_upto seq (- int e) = [])
        \<and> (seq \<noteq> [] \<longrightarrow> length (slice_upto seq (- int e)) < length seq))
   \<and> (length wav = length flux1 \<and> length flux1 = length flux2 \<longrightarrow>
        (\<exists>curve s'. Extinction s (slice_from wav i) (slice_from flux1 i) (slice_from flux2 i)
                      = Inr (curve, s'))
        \<and> (\<exists>curve s'. Extinction s (slice_upto wav j) (slice_upto flux1 j) (slice_upto flux2 j)
                      = Inr (curve, s')))"
proof -
  have 1: "sublist (slice_from seq i) seq" "sublist (slice_upto seq j) seq"
    by (rule sublist_slice_from sublist_slice_upto)+
  then have 2: "length (slice_from seq i) \<le> length seq" "length (slice_upto seq j) \<le> length seq"
    by (simp_all add: sublist_length_le)
  have 3: "length (slice_from seq (int sc)) = length seq - sc"
    "length seq \<le> sc \<longrightarrow> slice_from seq (int sc) = []"
    "0 < sc \<and> seq \<noteq> [] \<longrightarrow> length (slice_from seq (int sc)) < length seq"
    by (auto simp add: slice_from_nat)
  have 4: "0 < e \<longrightarrow>
        length (slice_upto seq (- int e)) = length seq - e
        \<and> (length seq \<le> e \<longrightarrow> slice_upto seq (- int e) = [])
        \<and> (seq \<noteq> [] \<longrightarrow> length (slice_upto seq (- int e)) < length seq)"
    by (auto simp add: slice_upto_neg)
  have 5: "length wav = length flux1 \<and> length flux1 = length flux2 \<longrightarrow>
        (\<exists>curve s'. Extinction s (slice_from wav i) (slice_from flux1 i) (slice_from flux2 i)
                      = Inr (curve, s'))
        \<and> (\<exists>curve s'. Extinction s (slice_upto wav j) (slice_upto flux1 j) (slice_upto flux2 j)
                      = Inr (curve, s'))"
  proof (intro impI conjI)
    assume l: "length wav = length flux1 \<and> length flux1 = length flux2"
    then have "length (slice_from wav i) = length (slice_from flux1 i)"
      "length (slice_from flux1 i) = length (slice_from flux2 i)"
      by (simp_all add: length_slice_from)
    from Extinction_returns [OF this, of s]
    show "\<exists>curve s'. Extinction s (slice_from wav i) (slice_from flux1 i) (slice_from flux2 i)
                      = Inr (curve, s')"
      by blast
    from l have "length (slice_upto wav j) = length (slice_upto flux1 j)"
      "length (slice_upto flux1 j) = length (slice_upto flux2 j)"
      by (simp_all add: length_slice_upto)
    from Extinction_returns [OF this, of s]
    show "\<exists>curve s'. Extinction s (slice_upto wav j) (slice_upto flux1 j) (slice_upto flux2 j)
                      = Inr (curve, s')"
      by blast
  qed
  from 1 2 3 4 5 show ?thesis
    by (intro conjI)
qed

text \<open>
  Offsets of five on arrays of three samples.
\<close>

theorem slices_clamp_witness:
  "(0::nat) < 5 \<and> length [1, 2, 3 :: int] \<le> 5 \<and> [1, 2, 3 :: int] \<noteq> []
   \<and> slice_from [1, 2, 3 :: int] (int 5) = []
   \<and> length (slice_from [1, 2, 3 :: int] (int 5)) < length [1, 2, 3 :: int]
   \<and> slice_upto [1, 2, 3 :: int] (- int 5) = []
   \<and> length (slice_upto [1, 2, 3 :: int] (- int 5)) < length [1, 2, 3 :: int]
   \<and> length [Fin 1, Fin 1, Fin 1] = length [Fin 1, Fin 1, Fin 1]
   \<and> Extinction \<lparr>V_dusty = Fin 1, V_nodust = Fin 1, EBV = Fin 1, figure = []\<rparr>
        (slice_from [Fin 1, Fin 1, Fin 1] 5) (slice_from [Fin 1, Fin 1, Fin 1] 5)
        (slice_from [Fin 1, Fin 1, Fin 1] 5)
      = Inr (([], []),
             \<lparr>V_dusty = Fin 1, V_nodust = Fin 1, EBV = Fin 1, figure = [([], [])]\<rparr>)"
proof -
  let ?a = "[Fin 1, Fin 1, Fin 1]"
  let ?s = "\<lparr>V_dusty = Fin 1, V_nodust = Fin 1, EBV = Fin 1, figure = []\<rparr>"
  note t = slices_clamp [of "[1, 2, 3 :: int]" 5 "- 5" 5 5 ?a ?a ?a ?s]
  have h: "(0::nat) < 5" "length [1, 2, 3 :: int] \<le> 5" "[1, 2, 3 :: int] \<noteq> []"
    "length ?a = length ?a"
    by simp_all
  from t h have 1: "slice_from [1, 2, 3 :: int] (int 5) = []"
    "length (slice_from [1, 2, 3 :: int] (int 5)) < length [1, 2, 3 :: int]"
    "slice_upto [1, 2, 3 :: int] (- int 5) = []"
    "length (slice_upto [1, 2, 3 :: int] (- int 5)) < length [1, 2, 3 :: int]"
    by blast+
  from t h(4) obtain curve s' where
    r: "Extinction ?s (slice_from ?a 5) (slice_from ?a 5) (slice_from ?a 5) = Inr (curve, s')"
    by blast
  have "Extinction ?s (slice_from ?a 5) (slice_from ?a 5) (slice_from ?a 5)
      = Inr (([], []),
             \<lparr>V_dusty = Fin 1, V_nodust = Fin 1, EBV = Fin 1, figure = [([], [])]\<rparr>)"
    using r by (simp add: slice_from_def adjust_index_def Extinction_same_length)
  with h 1 show ?thesis
    by (intro conjI)
qed

text \<open>
  With a start offset of zero and an end offset of three on three samples, the offsets
  add up to the length, and the slice \<open>seq[0:]\<close> is the whole array, not a shorter one.
\<close>

theorem slice_not_shorter_counterexample:
  "length [1, 2, 3 :: int] \<le> 0 + 3
   \<and> slice_from [1, 2, 3 :: int] 0 = [1, 2, 3]
   \<and> \<not> length (slice_from [1, 2, 3 :: int] 0) < length [1, 2, 3 :: int]
   \<and> slice_upto [1, 2, 3 :: int] (- 3) = []"
  by (simp add: slice_from_def slice_upto_def adjust_index_def)

text \<open>
  Claim C10, as the code has it. The alignment cell and the slices of the excision cell
  return contiguous parts of their input arrays, so every property of an array that
  passes to its contiguous parts is kept, among them being sorted. A slice applied to the
  two arrays of a spectrum of equal length gives two arrays of equal length. The
  alignment cell cuts the reference wavelengths to the number of target wavelengths and
  the reference fluxes to the number of target fluxes: its outputs have arrays of equal
  length when the arrays of both inputs have.
\<close>

theorem slices_are_contiguous:
  fixes dusty nodust sp :: "('a::linorder) spectrum" and seq :: "'a list"
  shows
  "fst (align dusty nodust) = dusty
   \<and> sublist (wavs (snd (align dusty nodust))) (wavs nodust)
   \<and> sublist (fluxes (snd (align dusty nodust))) (fluxes nodust)
   \<and> sublist (slice_from seq s_crop) seq
   \<and> sublist (slice_upto seq l_crop) seq
   \<and> ((\<forall>xs ys. sublist xs ys \<longrightarrow> P ys \<longrightarrow> P xs) \<longrightarrow>
        (P (wavs nodust) \<longrightarrow> P (wavs (snd (align dusty nodust))))
        \<and> (P (fluxes nodust) \<longrightarrow> P (fluxes (snd (align dusty nodust))))
        \<and> (P seq \<longrightarrow> P (slice_from seq s_crop) \<and> P (slice_upto seq l_crop)))
   \<and> (sorted (wavs nodust) \<longrightarrow> sorted (wavs (snd (align dusty nodust))))
   \<and> (sorted (wavs sp) \<longrightarrow>
        sorted (slice_from (wavs sp) s_crop) \<and> sorted (slice_upto (wavs sp) l_crop))
   \<and> (length (wavs dusty) = length (fluxes dusty)
        \<and> length (wavs nodust) = length (fluxes nodust) \<longrightarrow>
        length (wavs (fst (align dusty nodust))) = length (fluxes (fst (align dusty nodust)))
        \<and> length (wavs (snd (align dusty nodust)))
            = length (fluxes (snd (align dusty nodust))))
   \<and> (length (wavs sp) = length (fluxes sp) \<longrightarrow>
        length (slice_from (wavs sp) s_crop) = length (slice_from (fluxes sp) s_crop)
        \<and> length (slice_upto (wavs sp) l_crop) = length (slice_upto (fluxes sp) l_crop))"
proof -
  have f: "fst (align dusty nodust) = dusty"
    by (simp add: align_def)
  have a1: "sublist (wavs (snd (align dusty nodust))) (wavs nodust)"
    and a2: "sublist (fluxes (snd (align dusty nodust))) (fluxes nodust)"
    by (simp_all add: align_def sublist_slice_upto)
  have c1: "sublist (slice_from seq s_crop) seq"
    and c2: "sublist (slice_upto seq l_crop) seq"
    by (rule sublist_slice_from sublist_slice_upto)+
  have p: "(\<forall>xs ys. sublist xs ys \<longrightarrow> P ys \<longrightarrow> P xs) \<longrightarrow>
        (P (wavs nodust) \<longrightarrow> P (wavs (snd (align dusty nodust))))
        \<and> (P (fluxes nodust) \<longrightarrow> P (fluxes (snd (align dusty nodust))))
        \<and> (P seq \<longrightarrow> P (slice_from seq s_crop) \<and> P (slice_upto seq l_crop))"
    using a1 a2 c1 c2 by blast
  have s1: "sorted (wavs nodust) \<longrightarrow> sorted (wavs (snd (align dusty nodust)))"
    using sorted_wrt_sublist [OF a1] by blast
  have s2: "sorted (wavs sp) \<longrightarrow>
        sorted (slice_from (wavs sp) s_crop) \<and> sorted (slice_upto (wavs sp) l_crop)"
    using sorted_wrt_sublist [OF sublist_slice_from [of "wavs sp" s_crop]]
      sorted_wrt_sublist [OF sublist_slice_upto [of "wavs sp" l_crop]]
    by blast
  have l1: "length (wavs dusty) = length (fluxes dusty)
        \<and> length (wavs nodust) = length (fluxes nodust) \<longrightarrow>
        length (wavs (fst (align dusty nodust))) = length (fluxes (fst (align dusty nodust)))
        \<and> length (wavs (snd (align dusty nodust)))
            = length (fluxes (snd (align dusty nodust)))"
    by (simp add: align_def slice_upto_nat)
  have l2: "length (wavs sp) = length (fluxes sp) \<longrightarrow>
        length (slice_from (wavs sp) s_crop) = length (slice_from (fluxes sp) s_crop)
        \<and> length (slice_upto (wavs sp) l_crop) = length (slice_upto (fluxes sp) l_crop)"
    by (simp add: length_slice_from length_slice_upto)
  show ?thesis
    by (intro conjI; fact)
qed

text \<open>
  A target of three samples and a reference of five, with sorted, distinct wavelengths.
\<close>

theorem slices_are_contiguous_witness:
  "distinct [1, 2, 3, 4, 5 :: int] \<and> sorted [1, 2, 3, 4, 5 :: int]
   \<and> length (wavs \<lparr>wavs = [1, 2, 3, 4, 5 :: int], fluxes = [10, 20, 30, 40, 50]\<rparr>)
       = length (fluxes \<lparr>wavs = [1, 2, 3, 4, 5 :: int], fluxes = [10, 20, 30, 40, 50]\<rparr>)
   \<and> length (wavs \<lparr>wavs = [1, 2, 3 :: int], fluxes = [7, 8, 9]\<rparr>)
       = length (fluxes \<lparr>wavs = [1, 2, 3 :: int], fluxes = [7, 8, 9]\<rparr>)
   \<and> distinct (slice_from [1, 2, 3, 4, 5 :: int] 1)
   \<and> distinct (slice_upto [1, 2, 3, 4, 5 :: int] (- 1))
   \<and> sorted (wavs (snd (align \<lparr>wavs = [1, 2, 3 :: int], fluxes = [7, 8, 9]\<rparr>
                   \<lparr>wavs = [1, 2, 3, 4, 5 :: int], fluxes = [10, 20, 30, 40, 50]\<rparr>)))
   \<and> sorted (slice_from [1, 2, 3, 4, 5 :: int] 1)
   \<and> sorted (slice_upto [1, 2, 3, 4, 5 :: int] (- 1))
   \<and> length (wavs (snd (align \<lparr>wavs = [1, 2, 3 :: int], fluxes = [7, 8, 9]\<rparr>
                   \<lparr>wavs = [1, 2, 3, 4, 5 :: int], fluxes = [10, 20, 30, 40, 50]\<rparr>)))
       = length (fluxes (snd (align \<lparr>wavs = [1, 2, 3 :: int], fluxes = [7, 8, 9]\<rparr>
                   \<lparr>wavs = [1, 2, 3, 4, 5 :: int], fluxes = [10, 20, 30, 40, 50]\<rparr>)))
   \<and> length (slice_from [1, 2, 3, 4, 5 :: int] 1) = length (slice_from [10, 20, 30, 40, 50 :: int] 1)
   \<and> length (slice_upto [1, 2, 3, 4, 5 :: int] (- 1))
       = length (slice_upto [10, 20, 30, 40, 50 :: int] (- 1))"
proof -
  let ?d = "\<lparr>wavs = [1, 2, 3 :: int], fluxes = [7, 8, 9]\<rparr>"
  let ?n = "\<lparr>wavs = [1, 2, 3, 4, 5 :: int], fluxes = [10, 20, 30, 40, 50]\<rparr>"
  have closed: "\<forall>xs ys :: int list. sublist xs ys \<longrightarrow> distinct ys \<longrightarrow> distinct xs"
    by (auto simp add: sublist_def)
  have d: "distinct [1, 2, 3, 4, 5 :: int]" and s: "sorted [1, 2, 3, 4, 5 :: int]"
    and w: "length (wavs ?n) = length (fluxes ?n)" "length (wavs ?d) = length (fluxes ?d)"
    by simp_all
  note t = slices_are_contiguous [of ?d ?n "[1, 2, 3, 4, 5 :: int]" 1 "- 1" distinct ?n]
  from t closed d have 1: "distinct (slice_from [1, 2, 3, 4, 5 :: int] 1)"
    "distinct (slice_upto [1, 2, 3, 4, 5 :: int] (- 1))"
    by blast+
  from t s have 2: "sorted (wavs (snd (align ?d ?n)))"
    by simp
  from t s have 3: "sorted (slice_from [1, 2, 3, 4, 5 :: int] 1)"
    "sorted (slice_upto [1, 2, 3, 4, 5 :: int] (- 1))"
    by simp_all
  from t w have 4: "length (wavs (snd (align ?d ?n))) = length (fluxes (snd (align ?d ?n)))"
    by blast
  from t w have 5: "length (slice_from [1, 2, 3, 4, 5 :: int] 1)
       = length (slice_from [10, 20, 30, 40, 50 :: int] 1)"
    "length (slice_upto [1, 2, 3, 4, 5 :: int] (- 1))
       = length (slice_upto [10, 20, 30, 40, 50 :: int] (- 1))"
    by simp_all
  from d s w 1 2 3 4 5 show ?thesis
    by (intro conjI)
qed

text \<open>
  A reference with five wavelengths and five fluxes, aligned to a target with two
  wavelengths and four fluxes, comes back with two wavelengths and four fluxes.
\<close>

theorem align_unequal_arrays_counterexample:
  "length (wavs \<lparr>wavs = [1, 2, 3, 4, 5 :: int], fluxes = [10, 20, 30, 40, 50]\<rparr>)
     = length (fluxes \<lparr>wavs = [1, 2, 3, 4, 5 :: int], fluxes = [10, 20, 30, 40, 50]\<rparr>)
   \<and> snd (align \<lparr>wavs = [1, 2 :: int], fluxes = [7, 8, 9, 10]\<rparr>
                \<lparr>wavs = [1, 2, 3, 4, 5], fluxes = [10, 20, 30, 40, 50]\<rparr>)
     = \<lparr>wavs = [1, 2], fluxes = [10, 20, 30, 40]\<rparr>
   \<and> length (wavs (snd (align \<lparr>wavs = [1, 2 :: int], fluxes = [7, 8, 9, 10]\<rparr>
                \<lparr>wavs = [1, 2, 3, 4, 5], fluxes = [10, 20, 30, 40, 50]\<rparr>)))
     \<noteq> length (fluxes (snd (align \<lparr>wavs = [1, 2 :: int], fluxes = [7, 8, 9, 10]\<rparr>
                \<lparr>wavs = [1, 2, 3, 4, 5], fluxes = [10, 20, 30, 40, 50]\<rparr>)))"
  by (simp add: align_def slice_upto_def adjust_index_def)

end
